theory Spec2Isabelle
  imports Main "HOL-Library.Word"
begin

unbundle bit_operations_syntax

section \<open>The declarative API test-case table (tests/common/apiTestCases.ts)\<close>

subsection \<open>Data model\<close>

text \<open>
  Literal JavaScript values as they occur in the table: strings, numbers, booleans,
  arrays and plain objects. An object keeps its properties in insertion order, with
  one entry per key.
\<close>

datatype jsval =
    JStr string
  | JNum int
  | JBool bool
  | JArr "jsval list"
  | JObj "(string \<times> jsval) list"

type_synonym jsobj = "(string \<times> jsval) list"

text \<open>
  Assignment of one property (\<^verbatim>\<open>o[k] = v\<close>): an existing key keeps its place and
  takes the new value, a new key is appended. Object spread \<^verbatim>\<open>{...a, ...b}\<close> copies
  the properties of \<^verbatim>\<open>a\<close> and then assigns those of \<^verbatim>\<open>b\<close> in order.
\<close>

fun obj_set :: "string \<Rightarrow> jsval \<Rightarrow> jsobj \<Rightarrow> jsobj" where
  "obj_set k v [] = [(k, v)]"
| "obj_set k v ((k', v') # rest) =
     (if k' = k then (k, v) # rest else (k', v') # obj_set k v rest)"

definition spread :: "jsobj \<Rightarrow> jsobj \<Rightarrow> jsobj" where
  "spread a b = fold (\<lambda>(k, v) acc. obj_set k v acc) b a"

text \<open>The fixture \<^verbatim>\<open>clustersJson[0]\<close>: the default cluster descriptor.\<close>

record ClusterDescriptor =
  username :: string
  password :: string
  rest_server_uri :: string
  token :: string

datatype resultType = beforeResults | testResults

datatype pathStep = Key string | Index nat

text \<open>A parameter specification: \<^verbatim>\<open>type: 'raw'\<close> or \<^verbatim>\<open>type: 'fromResult'\<close>.\<close>

datatype IApiOperationParameter =
    Raw jsval
  | FromResult resultType "pathStep list" nat

record IApiOperationResponse =
  statusCode :: int
  expectResult :: "jsval option"

text \<open>
  An operation as the table writes it. Every field is optional in the literals of the
  table (a test variant may give the parameters only); \<^verbatim>\<open>response\<close> is the field the
  table sets inside \<^verbatim>\<open>operation: { ... }\<close>.
\<close>

record IApiOperation =
  tag :: "string option"
  operationId :: "string option"
  parameters :: "IApiOperationParameter list option"
  response :: "IApiOperationResponse option"

text \<open>
  A test variant. The fields \<^verbatim>\<open>description\<close>, \<^verbatim>\<open>operation\<close> and \<^verbatim>\<open>customizedTest\<close> are the
  ones the table's literals use.

  Modelled from the spec: the declaration of the variant type (IApiTestItem, in
  apiTestCaseGenerator.ts) is not among the sources; the specification's data model
  gives a variant a field \<^verbatim>\<open>response?: { statusCode, expectResult? }\<close> of its own,
  here \<open>item_response\<close>. No literal of the table sets it.
\<close>

record IApiTestItem =
  description :: "string option"
  operation :: "IApiOperation option"
  item_response :: "IApiOperationResponse option"
  customizedTest :: "string option"

record IApiTestCase =
  before :: "IApiOperation list option"
  tests :: "IApiTestItem list"
  after :: "IApiOperation list option"

text \<open>The empty object literal \<^verbatim>\<open>{}\<close> at each of the three record types.\<close>

definition emptyOperation :: IApiOperation where
  "emptyOperation =
     \<lparr>tag = None, operationId = None, parameters = None, response = None\<rparr>"

definition emptyTestItem :: IApiTestItem where
  "emptyTestItem =
     \<lparr>description = None, operation = None, item_response = None, customizedTest = None\<rparr>"

subsection \<open>The random-string singleton\<close>

text \<open>
  \<^verbatim>\<open>crypto.randomBytes(4)\<close> draws four bytes from the system's entropy. The entropy is
  an explicit supply: draw number \<open>n\<close> yields the word \<open>pool n\<close>, whose four bytes are
  read from the most significant one down. \<^verbatim>\<open>toString('hex')\<close> writes each byte as two
  lower-case hexadecimal digits.
\<close>

type_synonym entropy = "nat \<Rightarrow> 32 word"

definition hexDigit :: "nat \<Rightarrow> char" where
  "hexDigit n = ''0123456789abcdef'' ! (n mod 16)"

definition toHex :: "32 word \<Rightarrow> string" where
  "toHex w = map (\<lambda>i. hexDigit (unat (drop_bit (4 * i) w AND 15))) [7, 6, 5, 4, 3, 2, 1, 0]"

definition randomBytes4 :: "entropy \<Rightarrow> 32 word \<times> entropy" where
  "randomBytes4 e = (e 0, \<lambda>n. e (Suc n))"

text \<open>
  The class RandomString has one private field, \<^verbatim>\<open>data\<close>, undefined until the first
  call of \<^verbatim>\<open>new\<close>. The state threaded through the module is the field together with
  the entropy supply.
\<close>

record RandomString =
  data :: "string option"
  pool :: entropy

definition RandomString_new :: "RandomString \<Rightarrow> string \<times> RandomString" where
  "RandomString_new rs =
     (let (w, pool') = randomBytes4 (pool rs);
          d = toHex w
      in (d, \<lparr>data = Some d, pool = pool'\<rparr>))"

text \<open>\<^verbatim>\<open>if (this.data)\<close> is a truthiness test: undefined and the empty string fail it.\<close>

definition RandomString_get :: "RandomString \<Rightarrow> string \<times> RandomString" where
  "RandomString_get rs =
     (case data rs of
        Some d \<Rightarrow> if d \<noteq> [] then (d, rs) else RandomString_new rs
      | None \<Rightarrow> RandomString_new rs)"

text \<open>The singleton after \<^verbatim>\<open>new\<close> was called in the state \<open>rs\<close>.\<close>

definition drawn :: "RandomString \<Rightarrow> RandomString" where
  "drawn rs = \<lparr>data = Some (toHex (pool rs 0)), pool = \<lambda>n. pool rs (Suc n)\<rparr>"

text \<open>The module creates the singleton once, with no data.\<close>

definition randomString :: "entropy \<Rightarrow> RandomString" where
  "randomString e = \<lparr>data = None, pool = e\<rparr>"

subsection \<open>Shared operations\<close>

definition createTestUser :: IApiOperation where
  "createTestUser =
     \<lparr>tag = Some ''user'', operationId = Some ''createUser'',
      parameters = Some [Raw (JObj [(''username'', JStr ''sdk_test_user''),
                                    (''password'', JStr ''test_password'')])],
      response = None\<rparr>"

definition deleteTestUser :: IApiOperation where
  "deleteTestUser =
     \<lparr>tag = Some ''user'', operationId = Some ''deleteUser'',
      parameters = Some [Raw (JStr ''sdk_test_user'')],
      response = None\<rparr>"

definition createTestGroup :: IApiOperation where
  "createTestGroup =
     \<lparr>tag = Some ''group'', operationId = Some ''createGroup'',
      parameters = Some [Raw (JObj [(''groupname'', JStr ''sdktestgroup'')])],
      response = None\<rparr>"

definition deleteTestGroup :: IApiOperation where
  "deleteTestGroup =
     \<lparr>tag = Some ''group'', operationId = Some ''deleteGroup'',
      parameters = Some [Raw (JStr ''sdktestgroup'')],
      response = None\<rparr>"

text \<open>
  \<^verbatim>\<open>createTestJob()\<close> draws a fresh suffix with \<^verbatim>\<open>randomString.new()\<close> and spreads the
  name over the job configuration \<^verbatim>\<open>testJobConfig\<close> (a fixture of the test data, taken
  as a parameter).
\<close>

definition createTestJob :: "jsobj \<Rightarrow> RandomString \<Rightarrow> IApiOperation \<times> RandomString" where
  "createTestJob testJobConfig rs =
     (let (suffix, rs') = RandomString_new rs
      in (\<lparr>tag = Some ''job'', operationId = Some ''createJob'',
           parameters = Some [Raw (JObj (spread testJobConfig
                                   [(''name'', JStr (''sdk_test_job'' @ suffix))]))],
           response = None\<rparr>, rs'))"

datatype executionType = START | STOP

fun executionType_str :: "executionType \<Rightarrow> string" where
  "executionType_str START = ''START''"
| "executionType_str STOP = ''STOP''"

definition updateTestJobExecutionType ::
  "ClusterDescriptor \<Rightarrow> executionType \<Rightarrow> RandomString \<Rightarrow> IApiOperation \<times> RandomString" where
  "updateTestJobExecutionType c t rs =
     (let (suffix, rs') = RandomString_get rs
      in (\<lparr>tag = Some ''job'', operationId = Some ''updateJobExecutionType'',
           parameters = Some [Raw (JStr (username c)),
                              Raw (JStr (''sdk_test_job'' @ suffix)),
                              Raw (JStr (executionType_str t))],
           response = None\<rparr>, rs'))"

subsection \<open>The table\<close>

text \<open>
  \<^verbatim>\<open>ApiDefaultTestCases\<close> is one object literal, keyed by \<open>''<method> <path>''\<close>; its
  entries are given here group by group, in the order of the source, and joined at the
  end. An absent optional field is \<open>None\<close>.
\<close>

definition tokenTestCases :: "(string \<times> IApiTestCase) list" where
  "tokenTestCases =
     [(''get /api/v2/tokens'',
       \<lparr>before = Some [emptyOperation\<lparr>tag := Some ''token'',
                          operationId := Some ''createApplicationToken''\<rparr>],
        tests = [emptyTestItem\<lparr>description := Some ''Get tokens with user token''\<rparr>,
                 emptyTestItem\<lparr>description := Some ''Get tokens with unauthorized token'',
                   customizedTest := Some ''getTokensWithUnauthorizedUser''\<rparr>],
        after = Some [emptyOperation\<lparr>tag := Some ''token'',
                         operationId := Some ''deleteToken'',
                         parameters := Some [FromResult beforeResults [Key ''token''] 0]\<rparr>]\<rparr>),
      (''delete /api/v2/tokens/{token}'',
       \<lparr>before = Some [emptyOperation\<lparr>tag := Some ''token'',
                          operationId := Some ''createApplicationToken''\<rparr>],
        tests = [emptyTestItem\<lparr>operation := Some (emptyOperation\<lparr>
                   parameters := Some [FromResult beforeResults [Key ''token''] 0]\<rparr>)\<rparr>],
        after = None\<rparr>),
      (''post /api/v2/tokens/application'',
       \<lparr>before = None,
        tests = [emptyTestItem],
        after = Some [emptyOperation\<lparr>tag := Some ''token'',
                         operationId := Some ''deleteToken'',
                         parameters := Some [FromResult testResults [Key ''token''] 0]\<rparr>]\<rparr>)]"

definition authnTestCases :: "ClusterDescriptor \<Rightarrow> (string \<times> IApiTestCase) list" where
  "authnTestCases c =
     [(''post /api/v2/authn/basic/login'',
       \<lparr>before = None,
        tests =
          [emptyTestItem\<lparr>
             description := Some ''login with correct username and password'',
             operation := Some (emptyOperation\<lparr>
               parameters := Some [Raw (JStr (username c)), Raw (JStr (password c))]\<rparr>)\<rparr>,
           emptyTestItem\<lparr>
             description := Some ''login with non-existent username'',
             operation := Some (emptyOperation\<lparr>
               parameters := Some [Raw (JStr ''nonexistentuser''), Raw (JStr ''password'')],
               response := Some \<lparr>statusCode = 400,
                 expectResult = Some (JObj
                   [(''code'', JStr ''NoUserError''),
                    (''message'', JStr ''User nonexistentuser is not found.'')])\<rparr>\<rparr>)\<rparr>,
           emptyTestItem\<lparr>
             description := Some ''login with incorrect password'',
             operation := Some (emptyOperation\<lparr>
               parameters := Some [Raw (JStr (username c)), Raw (JStr ''incorrectpassword'')],
               response := Some \<lparr>statusCode = 400,
                 expectResult = Some (JObj
                   [(''code'', JStr ''IncorrectPasswordError''),
                    (''message'', JStr ''Password is incorrect.'')])\<rparr>\<rparr>)\<rparr>],
        after = Some [emptyOperation\<lparr>tag := Some ''token'',
                         operationId := Some ''deleteToken'',
                         parameters := Some [FromResult testResults [Key ''token''] 0]\<rparr>]\<rparr>),
      (''delete /api/v2/authn/basic/logout'',
       \<lparr>before = Some [emptyOperation\<lparr>tag := Some ''authn'',
                          operationId := Some ''basicLogin'',
                          parameters := Some [Raw (JStr (username c)),
                                              Raw (JStr (password c))]\<rparr>],
        tests = [emptyTestItem\<lparr>description := Some ''Logout with correct token'',
                   customizedTest := Some ''logoutWithCorrectToken''\<rparr>,
                 emptyTestItem\<lparr>description := Some ''Logout with incorrect token'',
                   customizedTest := Some ''logoutWithIncorrectToken''\<rparr>],
        after = None\<rparr>)]"

definition userTestCases :: "ClusterDescriptor \<Rightarrow> (string \<times> IApiTestCase) list" where
  "userTestCases c =
     [(''post /api/v2/users'',
       \<lparr>before = Some [emptyOperation\<lparr>tag := Some ''token'',
                          operationId := Some ''createApplicationToken''\<rparr>],
        tests =
          [emptyTestItem\<lparr>description := Some ''Create a user'',
             operation := Some createTestUser\<rparr>,
           emptyTestItem\<lparr>description := Some ''Create a conflict user'',
             operation := Some (createTestUser\<lparr>
               response := Some \<lparr>statusCode = 409, expectResult = None\<rparr>\<rparr>)\<rparr>,
           emptyTestItem\<lparr>description := Some ''Create a user by application token'',
             customizedTest := Some ''createUserByApplicationToken''\<rparr>,
           emptyTestItem\<lparr>description := Some ''Create a user by non-admin user token'',
             customizedTest := Some ''createUserByNonadminToken''\<rparr>],
        after = Some [deleteTestUser,
                      emptyOperation\<lparr>tag := Some ''token'',
                        operationId := Some ''deleteToken'',
                        parameters := Some [FromResult beforeResults [Key ''token''] 0]\<rparr>]\<rparr>),
      (''put /api/v2/users'',
       \<lparr>before = Some [createTestUser],
        tests =
          [emptyTestItem\<lparr>description := Some ''patch: true'',
             operation := Some (emptyOperation\<lparr>
               parameters := Some [Raw (JObj
                 [(''username'', JStr ''sdk_test_user''),
                  (''email'', JStr ''new_email@test1.com'')])]\<rparr>)\<rparr>,
           emptyTestItem\<lparr>description := Some ''patch: false'',
             operation := Some (emptyOperation\<lparr>
               parameters := Some [Raw (JObj
                 [(''username'', JStr ''sdk_test_user''),
                  (''email'', JStr ''new_email@test2.com''),
                  (''virtualCluster'', JArr [JStr ''default'']),
                  (''admin'', JBool False),
                  (''password'', JStr ''new_test_password''),
                  (''extension'', JObj [])]),
                 Raw (JBool False)]\<rparr>)\<rparr>],
        after = Some [deleteTestUser]\<rparr>),
      (''put /api/v2/users/me'',
       \<lparr>before = None,
        tests =
          [emptyTestItem\<lparr>description := Some ''patch: true'',
             operation := Some (emptyOperation\<lparr>
               parameters := Some [Raw (JObj
                 [(''username'', JStr (username c)),
                  (''email'', JStr ''new_email@test1.com'')])]\<rparr>)\<rparr>,
           emptyTestItem\<lparr>description := Some ''patch: false'',
             operation := Some (emptyOperation\<lparr>
               parameters := Some [Raw (JObj
                 [(''username'', JStr (username c)),
                  (''email'', JStr ''new_email@test2.com''),
                  (''oldPassword'', JStr (password c)),
                  (''newPassword'', JStr (password c))]),
                 Raw (JBool False)]\<rparr>)\<rparr>],
        after = None\<rparr>),
      (''get /api/v2/users/{user}'',
       \<lparr>before = None,
        tests = [emptyTestItem\<lparr>operation := Some (emptyOperation\<lparr>
                   parameters := Some [Raw (JStr (username c))]\<rparr>)\<rparr>],
        after = None\<rparr>),
      (''delete /api/v2/users/{user}'',
       \<lparr>before = Some [createTestUser],
        tests = [emptyTestItem\<lparr>operation := Some deleteTestUser\<rparr>],
        after = None\<rparr>)]"

definition groupTestCases :: "(string \<times> IApiTestCase) list" where
  "groupTestCases =
     [(''post /api/v2/groups'',
       \<lparr>before = None,
        tests = [emptyTestItem\<lparr>operation := Some createTestGroup\<rparr>],
        after = Some [deleteTestGroup]\<rparr>),
      (''put /api/v2/groups'',
       \<lparr>before = Some [createTestGroup],
        tests = [emptyTestItem\<lparr>operation := Some (emptyOperation\<lparr>
                   parameters := Some [Raw (JObj
                     [(''data'', JObj [(''groupname'', JStr ''sdktestgroup''),
                                       (''description'', JStr ''test update group'')]),
                      (''patch'', JBool True)])]\<rparr>)\<rparr>],
        after = Some [deleteTestGroup]\<rparr>),
      (''get /api/v2/groups/{group}'',
       \<lparr>before = Some [createTestGroup],
        tests = [emptyTestItem\<lparr>operation := Some (emptyOperation\<lparr>
                   parameters := Some [Raw (JStr ''sdktestgroup'')]\<rparr>)\<rparr>],
        after = Some [deleteTestGroup]\<rparr>),
      (''delete /api/v2/groups/{group}'',
       \<lparr>before = Some [createTestGroup],
        tests = [emptyTestItem\<lparr>operation := Some deleteTestGroup\<rparr>],
        after = None\<rparr>)]"

definition clusterTestCases :: "(string \<times> IApiTestCase) list" where
  "clusterTestCases =
     [(''get /api/v2/virtual-clusters/{vc}'',
       \<lparr>before = None,
        tests = [emptyTestItem\<lparr>operation := Some (emptyOperation\<lparr>
                   parameters := Some [Raw (JStr ''default'')]\<rparr>)\<rparr>],
        after = None\<rparr>),
      (''get /api/v2/virtual-clusters/{vc}/sku-types'',
       \<lparr>before = None,
        tests = [emptyTestItem\<lparr>operation := Some (emptyOperation\<lparr>
                   parameters := Some [Raw (JStr ''default'')]\<rparr>)\<rparr>],
        after = None\<rparr>),
      (''get /api/v2/storages/{storage}'',
       \<lparr>before = Some [emptyOperation\<lparr>tag := Some ''storage'',
                          operationId := Some ''getStorages''\<rparr>],
        tests = [emptyTestItem\<lparr>operation := Some (emptyOperation\<lparr>
                   parameters := Some [FromResult beforeResults
                     [Key ''storages'', Index 0, Key ''name''] 0]\<rparr>)\<rparr>],
        after = None\<rparr>)]"

text \<open>
  The job entries call \<^verbatim>\<open>createTestJob()\<close>, \<^verbatim>\<open>randomString.get()\<close> and
  \<^verbatim>\<open>updateTestJobExecutionType(...)\<close> while the literal is evaluated, property by property
  in source order; each entry takes the state of the singleton and hands it on.
\<close>

definition jobParameters :: "ClusterDescriptor \<Rightarrow> string \<Rightarrow> IApiOperationParameter list" where
  "jobParameters c suffix =
     [Raw (JStr (username c)), Raw (JStr (''sdk_test_job'' @ suffix))]"

definition postJobsTestCase ::
  "ClusterDescriptor \<Rightarrow> jsobj \<Rightarrow> RandomString \<Rightarrow> (string \<times> IApiTestCase) \<times> RandomString" where
  "postJobsTestCase c testJobConfig rs0 =
     (let (create, rs1) = createTestJob testJobConfig rs0;
          (stop, rs2) = updateTestJobExecutionType c STOP rs1
      in ((''post /api/v2/jobs'',
           \<lparr>before = None,
            tests = [emptyTestItem\<lparr>operation := Some create\<rparr>],
            after = Some [stop]\<rparr>), rs2))"

text \<open>
  The four entries that read a job (the job itself, its config, its attempts, one
  attempt) have the same shape: the key and the parameters after the job name differ.
\<close>

definition getJobTestCase ::
  "string \<Rightarrow> IApiOperationParameter list \<Rightarrow> ClusterDescriptor \<Rightarrow> jsobj \<Rightarrow> RandomString
     \<Rightarrow> (string \<times> IApiTestCase) \<times> RandomString" where
  "getJobTestCase key extra c testJobConfig rs0 =
     (let (create, rs1) = createTestJob testJobConfig rs0;
          (suffix, rs2) = RandomString_get rs1;
          (stop, rs3) = updateTestJobExecutionType c STOP rs2
      in ((key,
           \<lparr>before = Some [create],
            tests = [emptyTestItem\<lparr>operation := Some (emptyOperation\<lparr>
                       parameters := Some (jobParameters c suffix @ extra)\<rparr>)\<rparr>],
            after = Some [stop]\<rparr>), rs3))"

definition putExecutionTypeTestCase ::
  "ClusterDescriptor \<Rightarrow> jsobj \<Rightarrow> RandomString \<Rightarrow> (string \<times> IApiTestCase) \<times> RandomString" where
  "putExecutionTypeTestCase c testJobConfig rs0 =
     (let (create, rs1) = createTestJob testJobConfig rs0;
          (stop1, rs2) = updateTestJobExecutionType c STOP rs1;
          (start, rs3) = updateTestJobExecutionType c START rs2;
          (stop2, rs4) = updateTestJobExecutionType c STOP rs3
      in ((''put /api/v2/jobs/{user}~{job}/exectionType'',
           \<lparr>before = Some [create],
            tests = [emptyTestItem\<lparr>
                       description := Some ''update job execution type to STOP'',
                       operation := Some stop1\<rparr>,
                     emptyTestItem\<lparr>
                       description := Some ''update job execution type to START'',
                       operation := Some start\<rparr>],
            after = Some [stop2]\<rparr>), rs4))"

definition jobTestCases ::
  "ClusterDescriptor \<Rightarrow> jsobj \<Rightarrow> RandomString \<Rightarrow> (string \<times> IApiTestCase) list" where
  "jobTestCases c testJobConfig rs0 =
     (let (postJobs, rs1) = postJobsTestCase c testJobConfig rs0;
          (getJob, rs2) =
            getJobTestCase ''get /api/v2/jobs/{user}~{job}'' [] c testJobConfig rs1;
          (getConfig, rs3) =
            getJobTestCase ''get /api/v2/jobs/{user}~{job}/config'' [] c testJobConfig rs2;
          (putType, rs4) = putExecutionTypeTestCase c testJobConfig rs3;
          (getAttempts, rs5) =
            getJobTestCase ''get /api/v2/jobs/{user}~{job}/job-attempts'' [] c testJobConfig rs4;
          (getAttempt, rs6) =
            getJobTestCase ''get /api/v2/jobs/{user}~{job}/job-attempts/{attemptIndex}''
              [Raw (JNum 0)] c testJobConfig rs5
      in [postJobs, getJob, getConfig, putType, getAttempts, getAttempt])"

text \<open>
  The whole table, for a cluster descriptor, a job configuration and the entropy the
  module finds when it is loaded (the singleton starts with no data).
\<close>

definition ApiDefaultTestCases ::
  "ClusterDescriptor \<Rightarrow> jsobj \<Rightarrow> entropy \<Rightarrow> (string \<times> IApiTestCase) list" where
  "ApiDefaultTestCases c testJobConfig e =
     tokenTestCases @ authnTestCases c @ userTestCases c @ groupTestCases @
     clusterTestCases @ jobTestCases c testJobConfig (randomString e)"

subsection \<open>Reading the table\<close>

text \<open>
  What the claims about the table observe: the operations of a test case, the execution
  mode of a variant, the \<^verbatim>\<open>fromResult\<close> references of an operation and the job name an
  operation carries.
\<close>

definition opsOf :: "IApiOperation list option \<Rightarrow> IApiOperation list" where
  "opsOf ops = (case ops of None \<Rightarrow> [] | Some xs \<Rightarrow> xs)"

definition testOps :: "IApiTestCase \<Rightarrow> IApiOperation list" where
  "testOps tc =
     concat (map (\<lambda>t. case operation t of None \<Rightarrow> [] | Some op \<Rightarrow> [op]) (tests tc))"

definition operationParameters :: "IApiTestItem \<Rightarrow> IApiOperationParameter list option" where
  "operationParameters t = (case operation t of None \<Rightarrow> None | Some op \<Rightarrow> parameters op)"

definition operationResponse :: "IApiTestItem \<Rightarrow> IApiOperationResponse option" where
  "operationResponse t = (case operation t of None \<Rightarrow> None | Some op \<Rightarrow> response op)"

text \<open>
  The two execution modes of a variant: it has a declarative operation, or it names a
  customized test. \<open>exactlyOneMode\<close> is the specification's sentence; \<open>bothModes\<close> and
  \<open>noMode\<close> are the two ways to miss it.
\<close>

definition exactlyOneMode :: "IApiTestItem \<Rightarrow> bool" where
  "exactlyOneMode t = ((operation t \<noteq> None) \<noteq> (customizedTest t \<noteq> None))"

definition bothModes :: "IApiTestItem \<Rightarrow> bool" where
  "bothModes t = (operation t \<noteq> None \<and> customizedTest t \<noteq> None)"

definition noMode :: "IApiTestItem \<Rightarrow> bool" where
  "noMode t = (operation t = None \<and> customizedTest t = None)"

definition variantsWithoutMode :: "(string \<times> IApiTestCase) list \<Rightarrow> (string \<times> nat) list" where
  "variantsWithoutMode table =
     concat (map (\<lambda>(k, tc). map (\<lambda>(i, t). (k, i))
       (filter (\<lambda>(i, t). noMode t) (enumerate 0 (tests tc)))) table)"

text \<open>The references \<open>(resultType, resultIndex)\<close> among the parameters of an operation.\<close>

fun fromResults :: "IApiOperationParameter list \<Rightarrow> (resultType \<times> nat) list" where
  "fromResults [] = []"
| "fromResults (Raw v # ps) = fromResults ps"
| "fromResults (FromResult rt path i # ps) = (rt, i) # fromResults ps"

definition references :: "IApiOperation \<Rightarrow> (resultType \<times> nat) list" where
  "references op = (case parameters op of None \<Rightarrow> [] | Some ps \<Rightarrow> fromResults ps)"

text \<open>Every reference of a table, with the key of the entry it stands in.\<close>

definition tableReferences ::
  "(string \<times> IApiTestCase) list \<Rightarrow> (string \<times> resultType \<times> nat) list" where
  "tableReferences table =
     concat (map (\<lambda>(k, tc). map (\<lambda>r. (k, r))
       (concat (map references (opsOf (before tc) @ testOps tc @ opsOf (after tc))))) table)"

text \<open>
  A test case runs its \<^verbatim>\<open>before\<close> operations, then its variants, then its \<^verbatim>\<open>after\<close>
  operations. A reference is resolvable when the result it names exists by then:
  \<^item> in the \<open>j\<close>-th \<^verbatim>\<open>before\<close> operation, only a \<^verbatim>\<open>beforeResults\<close> index below \<open>j\<close>;
  \<^item> in a variant, only a \<^verbatim>\<open>beforeResults\<close> index below the number of \<^verbatim>\<open>before\<close>
    operations (no variant may read \<^verbatim>\<open>testResults\<close>);
  \<^item> in an \<^verbatim>\<open>after\<close> operation, a \<^verbatim>\<open>beforeResults\<close> index below the number of \<^verbatim>\<open>before\<close>
    operations or a \<^verbatim>\<open>testResults\<close> index below the number of variants.
\<close>

definition beforeResolvable :: "IApiTestCase \<Rightarrow> bool" where
  "beforeResolvable tc =
     list_all (\<lambda>(j, op). list_all (\<lambda>(rt, i). rt = beforeResults \<and> i < j) (references op))
       (enumerate 0 (opsOf (before tc)))"

definition testsResolvable :: "IApiTestCase \<Rightarrow> bool" where
  "testsResolvable tc =
     list_all (\<lambda>op. list_all (\<lambda>(rt, i). rt = beforeResults \<and> i < length (opsOf (before tc)))
                       (references op))
       (testOps tc)"

definition afterResolvable :: "IApiTestCase \<Rightarrow> bool" where
  "afterResolvable tc =
     list_all (\<lambda>op. list_all (\<lambda>(rt, i).
                  case rt of beforeResults \<Rightarrow> i < length (opsOf (before tc))
                           | testResults \<Rightarrow> i < length (tests tc))
                (references op))
       (opsOf (after tc))"

definition fromResultResolvable :: "IApiTestCase \<Rightarrow> bool" where
  "fromResultResolvable tc =
     (beforeResolvable tc \<and> testsResolvable tc \<and> afterResolvable tc)"

text \<open>
  The job name of an operation: the \<^verbatim>\<open>name\<close> of the configuration that \<^verbatim>\<open>createJob\<close>
  takes as its only parameter, or the second parameter of an operation that addresses a
  job by \<open>(user name, job name, ...)\<close>.
\<close>

fun jobNameParameter :: "IApiOperationParameter list \<Rightarrow> jsval option" where
  "jobNameParameter [Raw (JObj config)] = map_of config ''name''"
| "jobNameParameter (Raw user # Raw name # rest) = Some name"
| "jobNameParameter ps = None"

definition jobNameOf :: "IApiOperation \<Rightarrow> jsval option" where
  "jobNameOf op = (case parameters op of None \<Rightarrow> None | Some ps \<Rightarrow> jobNameParameter ps)"

definition jobRelated :: "IApiTestCase \<Rightarrow> bool" where
  "jobRelated tc =
     list_ex (\<lambda>op. tag op = Some ''job'') (opsOf (before tc) @ testOps tc @ opsOf (after tc))"

definition createdJobNames :: "IApiTestCase \<Rightarrow> jsval option list" where
  "createdJobNames tc =
     map jobNameOf (filter (\<lambda>op. operationId op = Some ''createJob'')
                      (opsOf (before tc) @ testOps tc))"

definition usedJobNames :: "IApiTestCase \<Rightarrow> jsval option list" where
  "usedJobNames tc = map jobNameOf (testOps tc @ opsOf (after tc))"

text \<open>
  The names agree: the test case creates one job, and every operation of its variants
  and of its \<^verbatim>\<open>after\<close> list carries the name of that job.
\<close>

definition jobNamesConsistent :: "IApiTestCase \<Rightarrow> bool" where
  "jobNamesConsistent tc =
     (case createdJobNames tc of
        [Some name] \<Rightarrow> list_all (\<lambda>n. n = Some name) (usedJobNames tc)
      | _ \<Rightarrow> False)"

definition jobName :: "string \<Rightarrow> jsval" where
  "jobName suffix = JStr (''sdk_test_job'' @ suffix)"

subsection \<open>A concrete run\<close>

text \<open>
  A cluster descriptor, a job configuration and an entropy supply at which the table is
  evaluated in the examples below.
\<close>

definition exampleCluster :: ClusterDescriptor where
  "exampleCluster =
     \<lparr>username = ''admin'', password = ''admin-password'',
      rest_server_uri = ''pai.example.org/rest-server'', token = ''example-token''\<rparr>"

definition exampleJobConfig :: jsobj where
  "exampleJobConfig =
     [(''protocolVersion'', JNum 2), (''name'', JStr ''sdk_test_job''),
      (''type'', JStr ''job'')]"

definition exampleEntropy :: entropy where
  "exampleEntropy n = 0x1f2e3d4c + of_nat n"

definition exampleTable :: "(string \<times> IApiTestCase) list" where
  "exampleTable = ApiDefaultTestCases exampleCluster exampleJobConfig exampleEntropy"

section \<open>CLI helpers (src/commands/utils.ts)\<close>

subsection \<open>Errors\<close>

text \<open>
  A JavaScript error object: its name and its message. \<^verbatim>\<open>new Error(e)\<close> converts \<^verbatim>\<open>e\<close>
  to a string, which for an error is \<^verbatim>\<open>name: message\<close>, and takes it as the message of
  the new error.
\<close>

datatype exn = Exn (exn_name: string) (message: string)

definition exn_toString :: "exn \<Rightarrow> string" where
  "exn_toString e =
     (if exn_name e = [] then message e
      else if message e = [] then exn_name e
      else exn_name e @ '': '' @ message e)"

definition newError :: "exn \<Rightarrow> exn" where
  "newError e = Exn ''Error'' (exn_toString e)"

subsection \<open>jobTemplate\<close>

text \<open>
  \<^verbatim>\<open>String.prototype.split\<close> with a separator of one character: the pieces between the
  occurrences of the separator, empty pieces included, so that a string with \<open>n\<close>
  separators has \<open>n + 1\<close> pieces.
\<close>

fun split :: "char \<Rightarrow> string \<Rightarrow> string list" where
  "split sep [] = [[]]"
| "split sep (c # cs) =
     (if c = sep then [] # split sep cs
      else (c # hd (split sep cs)) # tl (split sep cs))"

text \<open>
  \<^verbatim>\<open>argsMap\<close> is a plain object, created by \<^verbatim>\<open>{}\<close>, used as a dictionary from strings to
  strings: the map holds its own properties. The assignment \<^verbatim>\<open>argsMap[k] = v\<close> stores the
  property \<open>k\<close>, with one exception: \<^verbatim>\<open>__proto__\<close> is an accessor that a plain object
  inherits, and its setter ignores a value that is neither an object nor null, so the
  assignment of a string to it stores nothing.
\<close>

type_synonym argsMap = "string \<rightharpoonup> string"

definition assign :: "argsMap \<Rightarrow> string \<Rightarrow> string \<Rightarrow> argsMap" where
  "assign obj k v = (if k = ''__proto__'' then obj else obj(k \<mapsto> v))"

text \<open>
  What one call of \<^verbatim>\<open>jobTemplate\<close> does: the string it returns or the exception that
  leaves it, the lines it has printed with \<^verbatim>\<open>console.log\<close> by then, and the number of
  calls it has made into the template engine (\<^verbatim>\<open>nunjucks.configure\<close> and
  \<^verbatim>\<open>env.renderString\<close>).
\<close>

record templateRun =
  rendered :: "exn + string"
  console :: "string list"
  engineCalls :: nat

text \<open>The loop over \<^verbatim>\<open>argsArray\<close>, with the map and the console as its state.\<close>

fun parseArgs :: "string list \<Rightarrow> argsMap \<times> string list \<Rightarrow> argsMap \<times> string list" where
  "parseArgs [] st = st"
| "parseArgs (argsPair # rest) (argsMap, log) =
     (let pairArray = split CHR '':'' argsPair
      in if length pairArray \<noteq> 2
         then parseArgs rest (argsMap, log @ [''Arguments input error''])
         else parseArgs rest (assign argsMap (pairArray ! 0) (pairArray ! 1), log))"

text \<open>
  The template engine is a library outside the repository; \<^verbatim>\<open>jobTemplate\<close> takes its
  \<^verbatim>\<open>renderString\<close> as a parameter, applied to the \<^verbatim>\<open>autoescape\<close> option the environment
  was configured with, the template and the context. Called without a callback,
  \<^verbatim>\<open>renderString\<close> returns the rendered string or throws; \<^verbatim>\<open>jobTemplate\<close> has no
  \<^verbatim>\<open>try\<close> around the call, so the exception leaves \<^verbatim>\<open>jobTemplate\<close> as it is. An absent
  \<^verbatim>\<open>args\<close> (\<^verbatim>\<open>undefined\<close> or \<^verbatim>\<open>null\<close>, both caught by \<^verbatim>\<open>args == null\<close>) is \<open>None\<close>.
\<close>

definition jobTemplate ::
  "(bool \<Rightarrow> string \<Rightarrow> argsMap \<Rightarrow> exn + string) \<Rightarrow> string \<Rightarrow> string option \<Rightarrow> templateRun" where
  "jobTemplate renderString file args =
     (case args of
        None \<Rightarrow> \<lparr>rendered = Inr file, console = [], engineCalls = 0\<rparr>
      | Some a \<Rightarrow>
          (let (argsMap, log) = parseArgs (split CHR '';'' a) (Map.empty, [])
           in \<lparr>rendered = renderString True file argsMap, console = log,
               engineCalls = 2\<rparr>))"

text \<open>
  Modelled from the spec: the template engine (nunjucks) is not part of the repository.
  The specification says that rendering substitutes each \<open>{{key}}\<close>-style placeholder
  in the text with the key's mapped value, auto-escaping the substituted content. The
  renderer below copies the text and treats what stands between \<open>{{\<close> and the next
  \<open>}}\<close>, blanks around it dropped, as follows:
  \<^item> a plain variable name (letters, digits and underscores, not starting with a digit,
    and not a word of the engine's expression language) is replaced by the value of the
    name in the context, with the five characters of HTML markup escaped when
    \<open>autoescape\<close> is set; a name without a value yields nothing;
  \<^item> anything else is an expression of the engine's language, which the specification
    does not describe: its outcome is the parameter \<open>expr\<close>.
  A placeholder that is not closed is an error of the template, and the engine throws.
  Block tags and comments of the engine's language are not modelled.
\<close>

fun escapeChar :: "char \<Rightarrow> string" where
  "escapeChar c =
     (if c = CHR ''&'' then ''&amp;''
      else if c = CHR ''<'' then ''&lt;''
      else if c = CHR ''>'' then ''&gt;''
      else if c = CHR 0x22 then ''&quot;''
      else if c = CHR 0x27 then ''&#39;''
      else [c])"

definition escape :: "string \<Rightarrow> string" where
  "escape s = concat (map escapeChar s)"

definition trim :: "string \<Rightarrow> string" where
  "trim s = rev (dropWhile (\<lambda>c. c = CHR '' '') (rev (dropWhile (\<lambda>c. c = CHR '' '') s)))"

definition nameStart :: "char \<Rightarrow> bool" where
  "nameStart c = (c \<in> set ''abcdefghijklmnopqrstuvwxyzABCDEFGHIJKLMNOPQRSTUVWXYZ_'')"

definition nameChar :: "char \<Rightarrow> bool" where
  "nameChar c = (nameStart c \<or> c \<in> set ''0123456789'')"

definition reservedWords :: "string list" where
  "reservedWords =
     [''true'', ''false'', ''none'', ''null'', ''not'', ''and'', ''or'', ''in'', ''is'',
      ''if'', ''else'']"

definition plainName :: "string \<Rightarrow> bool" where
  "plainName n =
     (n \<noteq> [] \<and> nameStart (hd n) \<and> list_all nameChar n \<and> n \<notin> set reservedWords)"

definition substitute ::
  "(string \<Rightarrow> argsMap \<Rightarrow> exn + string) \<Rightarrow> bool \<Rightarrow> argsMap \<Rightarrow> string \<Rightarrow> exn + string" where
  "substitute expr autoescape ctx body =
     (let name = trim body
      in if plainName name
         then Inr (case ctx name of
                     None \<Rightarrow> []
                   | Some v \<Rightarrow> if autoescape then escape v else v)
         else expr name ctx)"

definition prepend :: "string \<Rightarrow> exn + string \<Rightarrow> exn + string" where
  "prepend s r = (case r of Inl e \<Rightarrow> Inl e | Inr t \<Rightarrow> Inr (s @ t))"

fun scan ::
  "(string \<Rightarrow> argsMap \<Rightarrow> exn + string) \<Rightarrow> bool \<Rightarrow> argsMap \<Rightarrow> string option \<Rightarrow> string
     \<Rightarrow> exn + string" where
  "scan expr esc ctx None [] = Inr []"
| "scan expr esc ctx None (c # rest) =
     (if c = CHR ''{'' \<and> rest \<noteq> [] \<and> hd rest = CHR ''{''
      then scan expr esc ctx (Some []) (tl rest)
      else prepend [c] (scan expr esc ctx None rest))"
| "scan expr esc ctx (Some body) [] =
     Inl (Exn ''Template render error'' ''expected variable end'')"
| "scan expr esc ctx (Some body) (c # rest) =
     (if c = CHR ''}'' \<and> rest \<noteq> [] \<and> hd rest = CHR ''}''
      then (case substitute expr esc ctx body of
              Inl e \<Rightarrow> Inl e
            | Inr v \<Rightarrow> prepend v (scan expr esc ctx None (tl rest)))
      else scan expr esc ctx (Some (body @ [c])) rest)"

definition nunjucks_renderString ::
  "(string \<Rightarrow> argsMap \<Rightarrow> exn + string) \<Rightarrow> bool \<Rightarrow> string \<Rightarrow> argsMap \<Rightarrow> exn + string" where
  "nunjucks_renderString expr autoescape text ctx = scan expr autoescape ctx None text"

text \<open>An engine for the examples: it rejects every expression that is not a plain name.\<close>

definition noExpressions :: "string \<Rightarrow> argsMap \<Rightarrow> exn + string" where
  "noExpressions body ctx = Inl (Exn ''Template render error'' (''unexpected token: '' @ body))"

text \<open>
  The specification's reading of the argument string: an entry is well formed when it
  contains exactly one \<open>:\<close>; its key is what stands before the colon and its value what
  stands after it; the mapping takes each key to the value of the last entry with that
  key.
\<close>

definition wellFormed :: "string \<Rightarrow> bool" where
  "wellFormed entry = (count_list entry CHR '':'' = 1)"

definition keyOf :: "string \<Rightarrow> string" where
  "keyOf entry = takeWhile (\<lambda>c. c \<noteq> CHR '':'') entry"

definition valueOf :: "string \<Rightarrow> string" where
  "valueOf entry = tl (dropWhile (\<lambda>c. c \<noteq> CHR '':'') entry)"

definition pairsMap :: "string list \<Rightarrow> argsMap" where
  "pairsMap entries = map_of (rev (map (\<lambda>entry. (keyOf entry, valueOf entry)) entries))"

text \<open>
  The test of the loop: an entry is accepted when \<^verbatim>\<open>split(':')\<close> cuts it into exactly
  two parts, and is malformed otherwise. An accepted entry is stored unless its key is
  \<^verbatim>\<open>__proto__\<close>.
\<close>

definition splitsInTwo :: "string \<Rightarrow> bool" where
  "splitsInTwo entry = (length (split CHR '':'' entry) = 2)"

definition accepted :: "string list \<Rightarrow> string list" where
  "accepted entries = filter splitsInTwo entries"

definition malformed :: "string list \<Rightarrow> string list" where
  "malformed entries = filter (\<lambda>entry. \<not> splitsInTwo entry) entries"

definition stored :: "string list \<Rightarrow> string list" where
  "stored entries = filter (\<lambda>entry. keyOf entry \<noteq> ''__proto__'') (accepted entries)"

subsection \<open>readJson and writeJson\<close>

text \<open>
  Modelled from the spec: the file-system library (fs-extra) and \<^verbatim>\<open>path.dirname\<close> are
  not part of the repository. The specification gives them three roles: reading and
  parsing a JSON file, which may fail; ensuring that the parent directories exist; and
  serialising a value and writing it, overwriting any existing file. The model is a
  set of directories and a map from paths to file contents.
  \<^item> \<open>fs_readJson\<close> fails when there is no file at the path or when its content does
    not parse.
  \<^item> \<open>fs_ensureDir\<close> adds the directory and every directory on the way to it.
  \<^item> \<open>fs_writeJSON\<close> writes the serialised value at the path; it needs the parent
    directory and fails without it.
  \<^item> \<open>dirname\<close> drops trailing slashes and the last component of the path.
  The serialiser and the parser are parameters. Failures of the operating system
  (permissions, a full disk, a file where a directory is expected) are outside the
  model.
\<close>

type_synonym path = string

record filesystem =
  dirs :: "path set"
  files :: "path \<rightharpoonup> string"

definition dirname :: "path \<Rightarrow> path" where
  "dirname p =
     (if p = [] then ''.''
      else
        (let hasRoot = (hd p = CHR ''/'');
             body = dropWhile (\<lambda>c. c = CHR ''/'') (rev (tl p));
             rest = dropWhile (\<lambda>c. c \<noteq> CHR ''/'') body
         in case rest of
              [] \<Rightarrow> if hasRoot then ''/'' else ''.''
            | slash # front \<Rightarrow>
                if hasRoot \<and> front = [] then ''//'' else hd p # rev front))"

definition dirChain :: "path \<Rightarrow> path list" where
  "dirChain d = [take i d. i \<leftarrow> [1..<length d], d ! i = CHR ''/''] @ [d]"

definition fs_readJson :: "(string \<Rightarrow> 'a option) \<Rightarrow> filesystem \<Rightarrow> path \<Rightarrow> exn + 'a" where
  "fs_readJson parse fs p =
     (case files fs p of
        None \<Rightarrow> Inl (Exn ''Error'' (''ENOENT: no such file or directory, open '' @ p))
      | Some text \<Rightarrow>
          (case parse text of
             None \<Rightarrow> Inl (Exn ''SyntaxError'' (p @ '': not valid JSON''))
           | Some v \<Rightarrow> Inr v))"

definition fs_ensureDir :: "filesystem \<Rightarrow> path \<Rightarrow> filesystem" where
  "fs_ensureDir fs d = fs\<lparr>dirs := dirs fs \<union> set (dirChain d)\<rparr>"

definition fs_writeJSON ::
  "('a \<Rightarrow> string) \<Rightarrow> filesystem \<Rightarrow> path \<Rightarrow> 'a \<Rightarrow> exn + filesystem" where
  "fs_writeJSON stringify fs p v =
     (if dirname p \<in> dirs fs
      then Inr (fs\<lparr>files := (files fs)(p \<mapsto> stringify v)\<rparr>)
      else Inl (Exn ''Error'' (''ENOENT: no such file or directory, open '' @ p)))"

text \<open>
  \<^verbatim>\<open>readJson(pth, val?)\<close>: the result, and the lines printed with \<^verbatim>\<open>console.warn\<close>. The
  fallback \<^verbatim>\<open>val\<close> is \<open>None\<close> when it is undefined or null (\<^verbatim>\<open>val == null\<close>). The debug
  output of \<^verbatim>\<open>Util.debug\<close> is not part of the model.
\<close>

definition readJson ::
  "(string \<Rightarrow> 'a option) \<Rightarrow> filesystem \<Rightarrow> path \<Rightarrow> 'a option \<Rightarrow> (exn + 'a) \<times> string list" where
  "readJson parse fs pth val =
     (case fs_readJson parse fs pth of
        Inr json \<Rightarrow> (Inr json, [])
      | Inl e \<Rightarrow>
          (case val of
             None \<Rightarrow> (Inl (newError e), [message e])
           | Some v \<Rightarrow> (Inr v, [message e])))"

text \<open>The read fails: there is no file at the path, or its content does not parse.\<close>

definition readFails :: "(string \<Rightarrow> 'a option) \<Rightarrow> filesystem \<Rightarrow> path \<Rightarrow> bool" where
  "readFails parse fs pth =
     (case files fs pth of None \<Rightarrow> True | Some text \<Rightarrow> parse text = None)"

definition writeJson ::
  "('a \<Rightarrow> string) \<Rightarrow> filesystem \<Rightarrow> path \<Rightarrow> 'a \<Rightarrow> exn + filesystem" where
  "writeJson stringify fs pth val =
     fs_writeJSON stringify (fs_ensureDir fs (dirname pth)) pth val"

subsection \<open>A JSON codec for the examples\<close>

text \<open>
  The compact text that \<^verbatim>\<open>JSON.stringify\<close> writes for a value of strings, integers,
  booleans, arrays and objects, and a reader for that text. The reader descends with a
  bound on the nesting depth it may still enter, which the length of the text provides.
\<close>

function showNat :: "nat \<Rightarrow> string" where
  "showNat n =
     (if n < 10 then [''0123456789'' ! n]
      else showNat (n div 10) @ [''0123456789'' ! (n mod 10)])"
  by pat_completeness auto
termination
  by (relation "measure id") auto

definition showInt :: "int \<Rightarrow> string" where
  "showInt i = (if i < 0 then CHR ''-'' # showNat (nat (- i)) else showNat (nat i))"

definition quote :: "string \<Rightarrow> string" where
  "quote s =
     [CHR 0x22] @
     concat (map (\<lambda>c. if c = CHR 0x22 \<or> c = CHR 0x5C then [CHR 0x5C, c] else [c]) s) @
     [CHR 0x22]"

fun join :: "string \<Rightarrow> string list \<Rightarrow> string" where
  "join sep [] = []"
| "join sep [x] = x"
| "join sep (x # y # ys) = x @ sep @ join sep (y # ys)"

fun stringifyJson :: "jsval \<Rightarrow> string" where
  "stringifyJson (JStr s) = quote s"
| "stringifyJson (JNum n) = showInt n"
| "stringifyJson (JBool b) = (if b then ''true'' else ''false'')"
| "stringifyJson (JArr xs) = ''['' @ join '','' (map stringifyJson xs) @ '']''"
| "stringifyJson (JObj members) =
     ''{'' @ join '','' (map (\<lambda>(k, v). quote k @ '':'' @ stringifyJson v) members) @ ''}''"

fun parseString :: "string \<Rightarrow> string \<Rightarrow> (string \<times> string) option" where
  "parseString acc [] = None"
| "parseString acc (c # rest) =
     (if c = CHR 0x22 then Some (acc, rest)
      else if c = CHR 0x5C then
        (case rest of [] \<Rightarrow> None | d # rest' \<Rightarrow> parseString (acc @ [d]) rest')
      else parseString (acc @ [c]) rest)"

definition isDigit :: "char \<Rightarrow> bool" where
  "isDigit c = (c \<in> set ''0123456789'')"

definition digitsVal :: "string \<Rightarrow> nat" where
  "digitsVal ds = foldl (\<lambda>n c. 10 * n + (of_char c - 48)) 0 ds"

definition parseNumber :: "string \<Rightarrow> (jsval \<times> string) option" where
  "parseNumber s =
     (let neg = (s \<noteq> [] \<and> hd s = CHR ''-'');
          t = (if neg then tl s else s);
          ds = takeWhile isDigit t
      in if ds = [] then None
         else Some (JNum (if neg then - int (digitsVal ds) else int (digitsVal ds)),
                    dropWhile isDigit t))"

fun parseValue :: "nat \<Rightarrow> string \<Rightarrow> (jsval \<times> string) option"
  and parseItems :: "nat \<Rightarrow> string \<Rightarrow> (jsval list \<times> string) option"
  and parseMembers :: "nat \<Rightarrow> string \<Rightarrow> ((string \<times> jsval) list \<times> string) option" where
  "parseValue 0 s = None"
| "parseValue (Suc n) s =
     (if s = [] then None
      else if hd s = CHR 0x22 then
        (case parseString [] (tl s) of None \<Rightarrow> None | Some (str, r) \<Rightarrow> Some (JStr str, r))
      else if take 2 s = ''[]'' then Some (JArr [], drop 2 s)
      else if hd s = CHR ''['' then
        (case parseItems n (tl s) of None \<Rightarrow> None | Some (xs, r) \<Rightarrow> Some (JArr xs, r))
      else if take 2 s = ''{}'' then Some (JObj [], drop 2 s)
      else if hd s = CHR ''{'' then
        (case parseMembers n (tl s) of None \<Rightarrow> None | Some (ms, r) \<Rightarrow> Some (JObj ms, r))
      else if take 4 s = ''true'' then Some (JBool True, drop 4 s)
      else if take 5 s = ''false'' then Some (JBool False, drop 5 s)
      else parseNumber s)"
| "parseItems 0 s = None"
| "parseItems (Suc n) s =
     (case parseValue n s of
        None \<Rightarrow> None
      | Some (v, r) \<Rightarrow>
          if r = [] then None
          else if hd r = CHR '']'' then Some ([v], tl r)
          else if hd r = CHR '','' then
            (case parseItems n (tl r) of None \<Rightarrow> None | Some (vs, r') \<Rightarrow> Some (v # vs, r'))
          else None)"
| "parseMembers 0 s = None"
| "parseMembers (Suc n) s =
     (if s = [] \<or> hd s \<noteq> CHR 0x22 then None
      else case parseString [] (tl s) of
        None \<Rightarrow> None
      | Some (k, r) \<Rightarrow>
          if r = [] \<or> hd r \<noteq> CHR '':'' then None
          else
            (case parseValue n (tl r) of
               None \<Rightarrow> None
             | Some (v, r') \<Rightarrow>
                 if r' = [] then None
                 else if hd r' = CHR ''}'' then Some ([(k, v)], tl r')
                 else if hd r' = CHR '','' then
                   (case parseMembers n (tl r') of
                      None \<Rightarrow> None
                    | Some (ms, r'') \<Rightarrow> Some ((k, v) # ms, r''))
                 else None))"

definition parseJson :: "string \<Rightarrow> jsval option" where
  "parseJson s =
     (case parseValue (Suc (length s)) s of
        Some (v, []) \<Rightarrow> Some v
      | _ \<Rightarrow> None)"

text \<open>A file system with one valid JSON file and one file that is not JSON.\<close>

definition exampleValue :: jsval where
  "exampleValue =
     JObj [(''name'', JStr ''sdk_test_job''), (''gpu'', JNum 2),
           (''tags'', JArr [JBool True, JNum (- 15), JObj []])]"

definition exampleClustersText :: string where
  "exampleClustersText = ''[{'' @ quote ''username'' @ '':'' @ quote ''admin'' @ ''}]''"

definition exampleFs :: filesystem where
  "exampleFs =
     \<lparr>dirs = {''/'', ''/etc''},
      files = [''/etc/clusters.json'' \<mapsto> exampleClustersText,
               ''/etc/broken.json'' \<mapsto> ''{not json'']\<rparr>"

section \<open>Properties\<close>

subsection \<open>The random-string singleton\<close>

lemma length_toHex: "length (toHex w) = 8"
  by (simp add: toHex_def)

lemma toHex_nonempty: "toHex w \<noteq> []"
  using length_toHex [of w] by auto

lemma RandomString_new_eq: "RandomString_new rs = (toHex (pool rs 0), drawn rs)"
  by (simp add: RandomString_new_def randomBytes4_def Let_def drawn_def)

lemma RandomString_get_Some:
  "data rs = Some d \<Longrightarrow> d \<noteq> [] \<Longrightarrow> RandomString_get rs = (d, rs)"
  by (simp add: RandomString_get_def)

lemma RandomString_get_drawn: "RandomString_get (drawn rs) = (toHex (pool rs 0), drawn rs)"
  by (simp add: RandomString_get_Some drawn_def toHex_nonempty)

lemma pool_drawn: "pool (drawn rs) n = pool rs (Suc n)"
  by (simp add: drawn_def)

lemma map_of_obj_set: "map_of (obj_set k v obj) k = Some v"
  by (induction obj) auto

lemma map_of_spread_name: "map_of (spread cfg [(k, v)]) k = Some v"
  by (simp add: spread_def map_of_obj_set)

lemma createTestJob_eq:
  "createTestJob cfg rs =
     (\<lparr>tag = Some ''job'', operationId = Some ''createJob'',
       parameters = Some [Raw (JObj (spread cfg
                               [(''name'', JStr (''sdk_test_job'' @ toHex (pool rs 0)))]))],
       response = None\<rparr>, drawn rs)"
  by (simp add: createTestJob_def RandomString_new_eq)

lemma updateTestJobExecutionType_drawn:
  "updateTestJobExecutionType c t (drawn rs) =
     (\<lparr>tag = Some ''job'', operationId = Some ''updateJobExecutionType'',
       parameters = Some [Raw (JStr (username c)),
                          Raw (JStr (''sdk_test_job'' @ toHex (pool rs 0))),
                          Raw (JStr (executionType_str t))],
       response = None\<rparr>, drawn rs)"
  by (simp add: updateTestJobExecutionType_def RandomString_get_drawn)

lemmas job_defs = jobTestCases_def postJobsTestCase_def getJobTestCase_def
  putExecutionTypeTestCase_def createTestJob_eq RandomString_get_drawn
  updateTestJobExecutionType_drawn pool_drawn randomString_def jobParameters_def
  emptyTestItem_def emptyOperation_def

lemmas static_defs = tokenTestCases_def authnTestCases_def userTestCases_def
  groupTestCases_def clusterTestCases_def emptyTestItem_def emptyOperation_def
  createTestUser_def deleteTestUser_def createTestGroup_def deleteTestGroup_def

lemmas reading_defs = opsOf_def testOps_def operationParameters_def operationResponse_def
  references_def jobNameOf_def

subsection \<open>The table\<close>

text \<open>
  Claim C6, as amended. The entry keyed \<open>post /api/v2/authn/basic/login\<close> has exactly
  three variants, all declarative and none with a response of its own at the level of
  the variant:
  \<^item> the first logs in with the user name and the password of the cluster descriptor and
    declares no expected response; the \<^verbatim>\<open>after\<close> operation of the entry reads the first
    test result;
  \<^item> the second logs in as \<open>nonexistentuser\<close>, and its operation carries the response
    with status code 400 and the body of \<open>NoUserError\<close>;
  \<^item> the third logs in with the right user name and a wrong password, and its operation
    carries the response with status code 400 and the body of \<open>IncorrectPasswordError\<close>.
\<close>

theorem login_variants:
  "map_option (\<lambda>tc. map operationParameters (tests tc))
     (map_of (ApiDefaultTestCases c cfg e) ''post /api/v2/authn/basic/login'') =
     Some [Some [Raw (JStr (username c)), Raw (JStr (password c))],
           Some [Raw (JStr ''nonexistentuser''), Raw (JStr ''password'')],
           Some [Raw (JStr (username c)), Raw (JStr ''incorrectpassword'')]]
   \<and> map_option (\<lambda>tc. map operationResponse (tests tc))
     (map_of (ApiDefaultTestCases c cfg e) ''post /api/v2/authn/basic/login'') =
     Some [None,
           Some \<lparr>statusCode = 400, expectResult = Some (JObj
             [(''code'', JStr ''NoUserError''),
              (''message'', JStr ''User nonexistentuser is not found.'')])\<rparr>,
           Some \<lparr>statusCode = 400, expectResult = Some (JObj
             [(''code'', JStr ''IncorrectPasswordError''),
              (''message'', JStr ''Password is incorrect.'')])\<rparr>]
   \<and> map_option (\<lambda>tc. map item_response (tests tc))
     (map_of (ApiDefaultTestCases c cfg e) ''post /api/v2/authn/basic/login'') =
     Some [None, None, None]
   \<and> map_option (\<lambda>tc. map customizedTest (tests tc))
     (map_of (ApiDefaultTestCases c cfg e) ''post /api/v2/authn/basic/login'') =
     Some [None, None, None]
   \<and> map_option (\<lambda>tc. map references (opsOf (after tc)))
     (map_of (ApiDefaultTestCases c cfg e) ''post /api/v2/authn/basic/login'') =
     Some [[(testResults, 0)]]"
  by (simp add: ApiDefaultTestCases_def static_defs reading_defs)

text \<open>
  Claim C6 as stated puts the expected responses of the second and the third variant at
  the level of the variant, and gives the first variant an expectation of its own. In
  the table no variant of the entry has a response at the level of the variant: the two
  responses with status code 400 stand inside the operations, and the first variant has
  no response at either level.
\<close>

theorem login_variant_response_counterexample:
  "map_option (\<lambda>tc. map item_response (tests tc))
     (map_of exampleTable ''post /api/v2/authn/basic/login'') = Some [None, None, None]
   \<and> map_option (\<lambda>tc. item_response (tests tc ! 1))
       (map_of exampleTable ''post /api/v2/authn/basic/login'') \<noteq>
     Some (Some \<lparr>statusCode = 400, expectResult = Some (JObj
             [(''code'', JStr ''NoUserError''),
              (''message'', JStr ''User nonexistentuser is not found.'')])\<rparr>)
   \<and> map_option (\<lambda>tc. item_response (tests tc ! 2))
       (map_of exampleTable ''post /api/v2/authn/basic/login'') \<noteq>
     Some (Some \<lparr>statusCode = 400, expectResult = Some (JObj
             [(''code'', JStr ''IncorrectPasswordError''),
              (''message'', JStr ''Password is incorrect.'')])\<rparr>)
   \<and> map_option (\<lambda>tc. operationResponse (tests tc ! 0))
       (map_of exampleTable ''post /api/v2/authn/basic/login'') = Some None"
  by (simp add: exampleTable_def ApiDefaultTestCases_def static_defs reading_defs)

text \<open>
  Claim C7. The first two variants of the entry keyed \<open>post /api/v2/users\<close> run the same
  operation \<open>createTestUser\<close>, which is \<^verbatim>\<open>createUser\<close> for the user \<open>sdk_test_user\<close>; the
  first expects no particular response, the second differs from it only by the expected
  response, whose status code is 409.
\<close>

theorem users_created_twice:
  "map_option (\<lambda>tc. map operation (take 2 (tests tc)))
     (map_of (ApiDefaultTestCases c cfg e) ''post /api/v2/users'') =
     Some [Some createTestUser,
           Some (createTestUser\<lparr>response :=
                   Some \<lparr>statusCode = 409, expectResult = None\<rparr>\<rparr>)]
   \<and> operationId createTestUser = Some ''createUser''
   \<and> parameters createTestUser =
       Some [Raw (JObj [(''username'', JStr ''sdk_test_user''),
                        (''password'', JStr ''test_password'')])]
   \<and> response createTestUser = None"
  by (simp add: ApiDefaultTestCases_def tokenTestCases_def authnTestCases_def
      userTestCases_def emptyTestItem_def emptyOperation_def createTestUser_def)

text \<open>The execution modes of the variants, first for the entries that need no random string.\<close>

lemma no_variant_both_static:
  "list_all (\<lambda>(k, tc). list_all (\<lambda>t. \<not> bothModes t) (tests tc))
     (tokenTestCases @ authnTestCases c @ userTestCases c @ groupTestCases @ clusterTestCases)"
  by (simp add: static_defs bothModes_def)

lemma no_variant_both_jobs:
  "list_all (\<lambda>(k, tc). list_all (\<lambda>t. \<not> bothModes t) (tests tc))
     (jobTestCases c cfg (randomString e))"
  by (simp add: job_defs bothModes_def)

lemma variantsWithoutMode_append:
  "variantsWithoutMode (xs @ ys) = variantsWithoutMode xs @ variantsWithoutMode ys"
  by (simp add: variantsWithoutMode_def)

lemma variantsWithoutMode_static:
  "variantsWithoutMode
     (tokenTestCases @ authnTestCases c @ userTestCases c @ groupTestCases @ clusterTestCases) =
   [(''get /api/v2/tokens'', 0), (''post /api/v2/tokens/application'', 0)]"
  by (simp add: static_defs variantsWithoutMode_def noMode_def)

lemma variantsWithoutMode_jobs:
  "variantsWithoutMode (jobTestCases c cfg (randomString e)) = []"
  by (simp add: job_defs variantsWithoutMode_def noMode_def)

text \<open>
  Claim C8, as amended. No variant of the table has both a declarative operation and a
  customized test. Two variants have neither, the first variant of \<open>get /api/v2/tokens\<close>
  and the only variant of \<open>post /api/v2/tokens/application\<close>; every other variant has
  exactly one of the two.
\<close>

theorem variant_modes:
  "(\<forall>(k, tc) \<in> set (ApiDefaultTestCases c cfg e). \<forall>t \<in> set (tests tc).
      \<not> bothModes t \<and> (exactlyOneMode t \<or> noMode t))
   \<and> variantsWithoutMode (ApiDefaultTestCases c cfg e) =
       [(''get /api/v2/tokens'', 0), (''post /api/v2/tokens/application'', 0)]"
proof
  have "\<forall>(k, tc) \<in> set (ApiDefaultTestCases c cfg e). \<forall>t \<in> set (tests tc). \<not> bothModes t"
    using no_variant_both_static [of c] no_variant_both_jobs [of c cfg e]
    by (auto simp add: ApiDefaultTestCases_def list_all_iff)
  moreover have "\<not> bothModes t \<Longrightarrow> exactlyOneMode t \<or> noMode t" for t
    by (auto simp: bothModes_def exactlyOneMode_def noMode_def)
  ultimately show "\<forall>(k, tc) \<in> set (ApiDefaultTestCases c cfg e). \<forall>t \<in> set (tests tc).
      \<not> bothModes t \<and> (exactlyOneMode t \<or> noMode t)"
    by blast
  show "variantsWithoutMode (ApiDefaultTestCases c cfg e) =
       [(''get /api/v2/tokens'', 0), (''post /api/v2/tokens/application'', 0)]"
    using variantsWithoutMode_static [of c] variantsWithoutMode_jobs [of c cfg e]
    by (simp add: ApiDefaultTestCases_def variantsWithoutMode_append)
qed

text \<open>
  Claim C8 as stated fails at the entry \<open>post /api/v2/tokens/application\<close>, whose only
  variant is the empty object: it has neither an operation nor a customized test.
\<close>

theorem variant_modes_counterexample:
  "(''post /api/v2/tokens/application'',
    \<lparr>before = None, tests = [emptyTestItem],
     after = Some [emptyOperation\<lparr>tag := Some ''token'',
                      operationId := Some ''deleteToken'',
                      parameters := Some [FromResult testResults [Key ''token''] 0]\<rparr>]\<rparr>)
     \<in> set exampleTable
   \<and> \<not> exactlyOneMode emptyTestItem"
  by (simp add: exampleTable_def ApiDefaultTestCases_def tokenTestCases_def
      exactlyOneMode_def emptyTestItem_def)


theorem variant_modes_witness:
  "\<not> bothModes emptyTestItem \<and> noMode emptyTestItem
   \<and> variantsWithoutMode exampleTable =
       [(''get /api/v2/tokens'', 0), (''post /api/v2/tokens/application'', 0)]"
proof -
  have "emptyTestItem \<in> set (tests (snd (exampleTable ! 2)))"
    by (simp add: exampleTable_def ApiDefaultTestCases_def tokenTestCases_def)
  moreover have "exampleTable ! 2 \<in> set exampleTable"
    by (simp add: exampleTable_def ApiDefaultTestCases_def tokenTestCases_def)
  ultimately show ?thesis
    using variant_modes [of exampleCluster exampleJobConfig exampleEntropy]
    unfolding exampleTable_def [symmetric]
    by (auto simp: case_prod_beta noMode_def emptyTestItem_def)
qed

subsection \<open>References to earlier results\<close>

lemmas resolvable_defs = fromResultResolvable_def beforeResolvable_def testsResolvable_def
  afterResolvable_def

lemma resolvable_static:
  "list_all (\<lambda>(k, tc). fromResultResolvable tc)
     (tokenTestCases @ authnTestCases c @ userTestCases c @ groupTestCases @ clusterTestCases)"
  by (simp add: static_defs resolvable_defs reading_defs)

lemma resolvable_jobs:
  "list_all (\<lambda>(k, tc). fromResultResolvable tc) (jobTestCases c cfg (randomString e))"
  by (simp add: job_defs resolvable_defs reading_defs)

lemma tableReferences_append:
  "tableReferences (xs @ ys) = tableReferences xs @ tableReferences ys"
  by (simp add: tableReferences_def)

lemma tableReferences_static:
  "tableReferences
     (tokenTestCases @ authnTestCases c @ userTestCases c @ groupTestCases @ clusterTestCases) =
   [(''get /api/v2/tokens'', beforeResults, 0),
    (''delete /api/v2/tokens/{token}'', beforeResults, 0),
    (''post /api/v2/tokens/application'', testResults, 0),
    (''post /api/v2/authn/basic/login'', testResults, 0),
    (''post /api/v2/users'', beforeResults, 0),
    (''get /api/v2/storages/{storage}'', beforeResults, 0)]"
  by (simp add: static_defs tableReferences_def reading_defs)

lemma tableReferences_jobs: "tableReferences (jobTestCases c cfg (randomString e)) = []"
  by (simp add: job_defs tableReferences_def reading_defs)

text \<open>
  Claim C9. Every \<^verbatim>\<open>fromResult\<close> parameter of the table names a result that exists when
  the parameter is resolved: a \<^verbatim>\<open>beforeResults\<close> reference has an index below the number
  of \<^verbatim>\<open>before\<close> operations of its entry (and, inside a \<^verbatim>\<open>before\<close> operation, below the
  position of that operation); a \<^verbatim>\<open>testResults\<close> reference stands in an \<^verbatim>\<open>after\<close>
  operation only, with an index below the number of variants of its entry. The table
  has six such parameters, all with index 0.
\<close>

theorem fromResult_resolvable:
  "(\<forall>(k, tc) \<in> set (ApiDefaultTestCases c cfg e). fromResultResolvable tc)
   \<and> tableReferences (ApiDefaultTestCases c cfg e) =
       [(''get /api/v2/tokens'', beforeResults, 0),
        (''delete /api/v2/tokens/{token}'', beforeResults, 0),
        (''post /api/v2/tokens/application'', testResults, 0),
        (''post /api/v2/authn/basic/login'', testResults, 0),
        (''post /api/v2/users'', beforeResults, 0),
        (''get /api/v2/storages/{storage}'', beforeResults, 0)]"
proof
  show "\<forall>(k, tc) \<in> set (ApiDefaultTestCases c cfg e). fromResultResolvable tc"
    using resolvable_static [of c] resolvable_jobs [of c cfg e]
    by (auto simp add: ApiDefaultTestCases_def list_all_iff)
  show "tableReferences (ApiDefaultTestCases c cfg e) =
       [(''get /api/v2/tokens'', beforeResults, 0),
        (''delete /api/v2/tokens/{token}'', beforeResults, 0),
        (''post /api/v2/tokens/application'', testResults, 0),
        (''post /api/v2/authn/basic/login'', testResults, 0),
        (''post /api/v2/users'', beforeResults, 0),
        (''get /api/v2/storages/{storage}'', beforeResults, 0)]"
    using tableReferences_static [of c] tableReferences_jobs [of c cfg e]
    by (simp add: ApiDefaultTestCases_def tableReferences_append)
qed

text \<open>
  The login entry of the concrete run: its \<^verbatim>\<open>after\<close> operation reads the first of three
  test results.
\<close>

theorem fromResult_resolvable_witness:
  "fromResultResolvable (the (map_of exampleTable ''post /api/v2/authn/basic/login''))
   \<and> map references
         (opsOf (after (the (map_of exampleTable ''post /api/v2/authn/basic/login'')))) =
       [[(testResults, 0)]]
   \<and> length (tests (the (map_of exampleTable ''post /api/v2/authn/basic/login''))) = 3"
proof -
  let ?tc = "the (map_of exampleTable ''post /api/v2/authn/basic/login'')"
  have found: "map_of exampleTable ''post /api/v2/authn/basic/login'' = Some ?tc"
    by (simp add: exampleTable_def ApiDefaultTestCases_def tokenTestCases_def
        authnTestCases_def)
  have "(''post /api/v2/authn/basic/login'', ?tc) \<in> set exampleTable"
    using found by (rule map_of_SomeD)
  then have "fromResultResolvable ?tc"
    using fromResult_resolvable [of exampleCluster exampleJobConfig exampleEntropy]
    unfolding exampleTable_def [symmetric] by blast
  moreover have "map references (opsOf (after ?tc)) = [[(testResults, 0)]]"
    by (simp add: exampleTable_def ApiDefaultTestCases_def static_defs reading_defs)
  moreover have "length (tests ?tc) = 3"
    by (simp add: exampleTable_def ApiDefaultTestCases_def static_defs)
  ultimately show ?thesis by simp
qed

subsection \<open>Job names\<close>

lemma jobRelated_static:
  "filter (\<lambda>(k, tc). jobRelated tc)
     (tokenTestCases @ authnTestCases c @ userTestCases c @ groupTestCases @ clusterTestCases) = []"
  by (simp add: static_defs jobRelated_def reading_defs)

lemma jobRelated_jobs:
  "list_all (\<lambda>(k, tc). jobRelated tc) (jobTestCases c cfg (randomString e))"
  by (simp add: job_defs jobRelated_def reading_defs)

lemma job_names:
  "map (\<lambda>(k, tc). (createdJobNames tc, usedJobNames tc)) (jobTestCases c cfg (randomString e)) =
     map (\<lambda>(i, uses). ([Some (jobName (toHex (e i)))], replicate uses (Some (jobName (toHex (e i))))))
       [(0, 2), (1, 2), (2, 2), (3, 3), (4, 2), (5, 2)]"
  by (simp add: job_defs createdJobNames_def usedJobNames_def reading_defs jobName_def
      map_of_spread_name eval_nat_numeral)


lemma get_after_new: "RandomString_get (snd (RandomString_new rs)) = RandomString_new rs"
  by (simp add: RandomString_new_eq RandomString_get_drawn)

lemma get_after_get: "RandomString_get (snd (RandomString_get rs)) = RandomString_get rs"
proof (cases "\<exists>d. data rs = Some d \<and> d \<noteq> []")
  case True
  then obtain d where "data rs = Some d" "d \<noteq> []" by blast
  then show ?thesis by (simp add: RandomString_get_Some)
next
  case False
  then have "RandomString_get rs = RandomString_new rs"
    by (auto simp: RandomString_get_def split: option.splits)
  then show ?thesis by (simp add: get_after_new)
qed

lemma names_consistent_jobs:
  "list_all (\<lambda>(k, tc). jobNamesConsistent tc) (jobTestCases c cfg (randomString e))"
  by (simp add: job_defs jobNamesConsistent_def createdJobNames_def usedJobNames_def
      reading_defs map_of_spread_name)

lemma created_names_jobs:
  "map (\<lambda>(k, tc). createdJobNames tc) (jobTestCases c cfg (randomString e)) =
     map (\<lambda>i. [Some (jobName (toHex (e i)))]) [0, 1, 2, 3, 4, 5]"
  by (simp add: job_defs createdJobNames_def reading_defs jobName_def
      map_of_spread_name eval_nat_numeral)

lemma filter_jobRelated:
  "filter (\<lambda>(k, tc). jobRelated tc) (ApiDefaultTestCases c cfg e) =
     jobTestCases c cfg (randomString e)"
  using jobRelated_static [of c] jobRelated_jobs [of c cfg e]
  by (simp add: ApiDefaultTestCases_def list_all_iff filter_id_conv)

text \<open>
  Claim C10. After \<^verbatim>\<open>new()\<close>, \<^verbatim>\<open>get()\<close> returns the string \<^verbatim>\<open>new()\<close> returned and leaves
  the singleton as it is; a \<^verbatim>\<open>get()\<close> after a \<^verbatim>\<open>get()\<close> returns the same string, again
  without a change of state, so that any number of calls agree. In every entry of the
  table that has a job operation, the job name of each test operation and of each
  \<^verbatim>\<open>after\<close> operation is the name in the one \<^verbatim>\<open>createJob\<close> operation of that entry; the
  six entries create their jobs from the first six draws of the entropy, in order.
\<close>

theorem randomString_job_names:
  "RandomString_get (snd (RandomString_new rs)) = RandomString_new rs
   \<and> RandomString_get (snd (RandomString_get rs)) = RandomString_get rs
   \<and> (\<forall>(k, tc) \<in> set (ApiDefaultTestCases c cfg e). jobRelated tc \<longrightarrow> jobNamesConsistent tc)
   \<and> map (\<lambda>(k, tc). createdJobNames tc)
        (filter (\<lambda>(k, tc). jobRelated tc) (ApiDefaultTestCases c cfg e)) =
      map (\<lambda>i. [Some (jobName (toHex (e i)))]) [0, 1, 2, 3, 4, 5]"
proof (intro conjI)
  show "RandomString_get (snd (RandomString_new rs)) = RandomString_new rs"
    by (rule get_after_new)
  show "RandomString_get (snd (RandomString_get rs)) = RandomString_get rs"
    by (rule get_after_get)
  have "\<forall>(k, tc) \<in> set (filter (\<lambda>(k, tc). jobRelated tc) (ApiDefaultTestCases c cfg e)).
          jobNamesConsistent tc"
    using names_consistent_jobs [of c cfg e] by (simp add: filter_jobRelated list_all_iff)
  then show "\<forall>(k, tc) \<in> set (ApiDefaultTestCases c cfg e).
          jobRelated tc \<longrightarrow> jobNamesConsistent tc"
    by auto
  show "map (\<lambda>(k, tc). createdJobNames tc)
        (filter (\<lambda>(k, tc). jobRelated tc) (ApiDefaultTestCases c cfg e)) =
      map (\<lambda>i. [Some (jobName (toHex (e i)))]) [0, 1, 2, 3, 4, 5]"
    by (simp only: filter_jobRelated created_names_jobs)
qed

text \<open>The second job entry of the concrete run, which uses the second draw.\<close>

lemma toHex_example: "toHex 0x1f2e3d4d = ''1f2e3d4d''"
  by (simp add: toHex_def hexDigit_def)

theorem randomString_job_names_witness:
  "jobRelated (the (map_of exampleTable ''get /api/v2/jobs/{user}~{job}''))
   \<and> jobNamesConsistent (the (map_of exampleTable ''get /api/v2/jobs/{user}~{job}''))
   \<and> usedJobNames (the (map_of exampleTable ''get /api/v2/jobs/{user}~{job}'')) =
       [Some (JStr ''sdk_test_job1f2e3d4d''), Some (JStr ''sdk_test_job1f2e3d4d'')]"
proof -
  let ?tc = "the (map_of exampleTable ''get /api/v2/jobs/{user}~{job}'')"
  have found: "map_of exampleTable ''get /api/v2/jobs/{user}~{job}'' = Some ?tc"
    by (simp add: exampleTable_def ApiDefaultTestCases_def static_defs job_defs)
  have related: "jobRelated ?tc"
    by (simp add: exampleTable_def ApiDefaultTestCases_def static_defs job_defs
        jobRelated_def reading_defs)
  have "(''get /api/v2/jobs/{user}~{job}'', ?tc) \<in> set exampleTable"
    using found by (rule map_of_SomeD)
  then have "jobNamesConsistent ?tc"
    using related randomString_job_names [of _ exampleCluster exampleJobConfig exampleEntropy]
    unfolding exampleTable_def [symmetric] by blast
  moreover have "usedJobNames ?tc =
       [Some (JStr ''sdk_test_job1f2e3d4d''), Some (JStr ''sdk_test_job1f2e3d4d'')]"
    by (simp add: exampleTable_def ApiDefaultTestCases_def static_defs job_defs
        usedJobNames_def reading_defs exampleEntropy_def toHex_example)
  ultimately show ?thesis using related by simp
qed


subsection \<open>jobTemplate\<close>

text \<open>The mapping of the specification: its keys, and the value of a key.\<close>

lemma pairsMap_dom: "dom (pairsMap entries) = keyOf ` set entries"
  by (simp add: pairsMap_def dom_map_of_conv_image_fst image_image)

lemma pairsMap_snoc: "pairsMap (entries @ [entry]) (keyOf entry) = Some (valueOf entry)"
  by (simp add: pairsMap_def)

lemma pairsMap_distinct:
  assumes "distinct (map keyOf entries)" and "entry \<in> set entries"
  shows "pairsMap entries (keyOf entry) = Some (valueOf entry)"
proof -
  have "distinct (map fst (rev (map (\<lambda>entry. (keyOf entry, valueOf entry)) entries)))"
    using assms(1) by (simp add: rev_map [symmetric] comp_def)
  moreover have "(keyOf entry, valueOf entry)
      \<in> set (rev (map (\<lambda>entry. (keyOf entry, valueOf entry)) entries))"
    using assms(2) by auto
  ultimately show ?thesis
    unfolding pairsMap_def by (rule map_of_is_SomeI)
qed

text \<open>A plain name has no blank and no brace, so that it stands for itself.\<close>

lemma nameChar_plain:
  "nameChar c \<Longrightarrow> c \<noteq> CHR '' '' \<and> c \<noteq> CHR ''}'' \<and> c \<noteq> CHR ''{''"
  by (auto simp: nameChar_def nameStart_def)

lemma trim_no_blank:
  assumes "CHR '' '' \<notin> set s"
  shows "trim s = s"
proof -
  have "dropWhile (\<lambda>c. c = CHR '' '') t = t" if "CHR '' '' \<notin> set t" for t :: string
    using that by (cases t) auto
  from this [of s] this [of "rev s"] assms show ?thesis
    by (simp add: trim_def)
qed

lemma plainName_trim: "plainName n \<Longrightarrow> trim n = n"
  using nameChar_plain by (intro trim_no_blank) (auto simp: plainName_def list_all_iff)

lemma plainName_no_brace: "plainName n \<Longrightarrow> CHR ''}'' \<notin> set n"
  using nameChar_plain by (auto simp: plainName_def list_all_iff)

lemma substitute_plainName:
  "plainName n \<Longrightarrow>
     substitute expr esc ctx n =
       Inr (case ctx n of None \<Rightarrow> [] | Some v \<Rightarrow> if esc then escape v else v)"
  by (simp add: substitute_def plainName_trim)

text \<open>
  The renderer written from the specification: text without a brace is copied, and a
  placeholder is replaced by the value of its name before the rest is rendered.
\<close>

lemma prepend_Cons: "prepend [c] (prepend s r) = prepend (c # s) r"
  by (simp add: prepend_def split: sum.splits)

lemma scan_plain: "CHR ''{'' \<notin> set lit \<Longrightarrow> scan expr esc ctx None lit = Inr lit"
  by (induction lit) (auto simp: prepend_def)

lemma scan_literal:
  "CHR ''{'' \<notin> set lit \<Longrightarrow>
     scan expr esc ctx None (lit @ ''{{'' @ rest) = prepend lit (scan expr esc ctx (Some []) rest)"
  by (induction lit) (auto simp: prepend_Cons, simp add: prepend_def split: sum.splits)

lemma scan_name:
  "CHR ''}'' \<notin> set name \<Longrightarrow>
     scan expr esc ctx (Some acc) (name @ ''}}'' @ rest) =
       (case substitute expr esc ctx (acc @ name) of
          Inl e \<Rightarrow> Inl e
        | Inr v \<Rightarrow> prepend v (scan expr esc ctx None rest))"
  by (induction name arbitrary: acc) (auto split: sum.splits)

lemma nunjucks_renderString_plain:
  "CHR ''{'' \<notin> set lit \<Longrightarrow> nunjucks_renderString expr esc lit ctx = Inr lit"
  by (simp add: nunjucks_renderString_def scan_plain)

lemma nunjucks_renderString_placeholder:
  assumes "CHR ''{'' \<notin> set lit" and "plainName key"
  shows "nunjucks_renderString expr esc (lit @ ''{{'' @ key @ ''}}'' @ rest) ctx =
           (case nunjucks_renderString expr esc rest ctx of
              Inl e \<Rightarrow> Inl e
            | Inr r \<Rightarrow>
                Inr (lit @ (case ctx key of
                              None \<Rightarrow> []
                            | Some v \<Rightarrow> if esc then escape v else v) @ r))"
proof -
  have "scan expr esc ctx None (lit @ ''{{'' @ (key @ ''}}'' @ rest)) =
          prepend lit (scan expr esc ctx (Some []) (key @ ''}}'' @ rest))"
    using assms(1) by (rule scan_literal)
  moreover have "scan expr esc ctx (Some []) (key @ ''}}'' @ rest) =
          (case substitute expr esc ctx ([] @ key) of
             Inl e \<Rightarrow> Inl e
           | Inr v \<Rightarrow> prepend v (scan expr esc ctx None rest))"
    using plainName_no_brace [OF assms(2)] by (rule scan_name)
  ultimately show ?thesis
    using substitute_plainName [OF assms(2), of expr esc ctx]
    by (simp add: nunjucks_renderString_def prepend_def split: sum.splits)
qed

text \<open>The pieces of a string with no separator, and with one.\<close>

lemma split_nonempty: "split sep s \<noteq> []"
  by (induction s) auto

lemma length_split: "length (split sep s) = Suc (count_list s sep)"
  by (induction s) (auto simp: split_nonempty)

lemma split_no_sep: "count_list s sep = 0 \<Longrightarrow> split sep s = [s]"
  by (induction s) (auto split: if_splits)

lemma split_one_sep:
  "count_list s sep = 1 \<Longrightarrow>
     split sep s = [takeWhile (\<lambda>c. c \<noteq> sep) s, tl (dropWhile (\<lambda>c. c \<noteq> sep) s)]"
  by (induction s) (auto simp: split_no_sep split: if_splits)

lemma splitsInTwo_iff: "splitsInTwo entry \<longleftrightarrow> wellFormed entry"
  by (simp add: splitsInTwo_def wellFormed_def length_split)

lemma splitsInTwo_eq: "splitsInTwo = wellFormed"
  by (rule ext) (rule splitsInTwo_iff)

lemma split_wellFormed:
  "wellFormed entry \<Longrightarrow> split CHR '':'' entry = [keyOf entry, valueOf entry]"
  by (simp add: wellFormed_def keyOf_def valueOf_def split_one_sep)

lemma pairsMap_Cons:
  "m ++ pairsMap (entry # entries) = m(keyOf entry \<mapsto> valueOf entry) ++ pairsMap entries"
  by (simp add: pairsMap_def map_add_def fun_eq_iff split: option.splits)

text \<open>
  The loop in closed form: it adds the pairs of the stored entries to the map, a later
  one over an earlier one, and prints one line for each malformed entry.
\<close>

lemma parseArgs_eq:
  "parseArgs entries (m, log) =
     (m ++ pairsMap (stored entries),
      log @ replicate (length (malformed entries)) ''Arguments input error'')"
proof (induction entries arbitrary: m log)
  case Nil
  show ?case by (simp add: pairsMap_def malformed_def accepted_def stored_def)
next
  case (Cons entry entries)
  show ?case
  proof (cases "wellFormed entry")
    case True
    show ?thesis
    proof (cases "keyOf entry = ''__proto__''")
      case True
      with \<open>wellFormed entry\<close> show ?thesis
        using Cons.IH [of m log]
        by (simp add: split_wellFormed malformed_def accepted_def stored_def
            splitsInTwo_eq assign_def)
    next
      case False
      with \<open>wellFormed entry\<close> show ?thesis
        using Cons.IH [of "m(keyOf entry \<mapsto> valueOf entry)" log]
        by (simp add: split_wellFormed pairsMap_Cons malformed_def accepted_def stored_def
            splitsInTwo_eq assign_def del: fun_upd_apply)
    qed
  next
    case False
    then have "length (split CHR '':'' entry) \<noteq> 2"
      by (simp add: splitsInTwo_iff [symmetric] splitsInTwo_def)
    then show ?thesis
      using False Cons.IH [of m "log @ [''Arguments input error'']"]
      by (simp add: replicate_append_same malformed_def accepted_def stored_def
          splitsInTwo_eq)
  qed
qed

lemma accepted_accepted: "accepted (accepted entries) = accepted entries"
  by (simp add: accepted_def)

lemma malformed_accepted: "malformed (accepted entries) = []"
  by (simp add: malformed_def accepted_def)

lemma stored_accepted: "stored (accepted entries) = stored entries"
  by (simp add: stored_def accepted_accepted)

text \<open>The malformed entries leave no trace in the map.\<close>

lemma parseArgs_accepted:
  "parseArgs (accepted entries) (m, []) = (fst (parseArgs entries (m, log)), [])"
  by (simp add: parseArgs_eq stored_accepted malformed_accepted)

text \<open>
  Claim C1, as amended. When every entry of the argument string contains exactly one
  colon and no key is \<^verbatim>\<open>__proto__\<close>, \<^verbatim>\<open>jobTemplate\<close> prints nothing and hands the text and
  the mapping of the keys to their values to the template engine, configured with
  \<^verbatim>\<open>autoescape: true\<close>: it returns what the engine returns and fails as the engine fails.
  With the renderer written from the specification, a text without a brace is returned
  as it is, and a placeholder \<open>{{key}}\<close> whose key is a plain name with a value in the
  mapping is replaced by that value, escaped, before the rest of the text is rendered.
\<close>

theorem jobTemplate_substitutes:
  assumes "\<forall>entry \<in> set (split CHR '';'' args).
             wellFormed entry \<and> keyOf entry \<noteq> ''__proto__''"
  shows "jobTemplate renderString text (Some args) =
           \<lparr>rendered = renderString True text (pairsMap (split CHR '';'' args)),
            console = [], engineCalls = 2\<rparr>
         \<and> (CHR ''{'' \<notin> set lit \<longrightarrow>
              rendered (jobTemplate (nunjucks_renderString expr) lit (Some args)) = Inr lit)
         \<and> (CHR ''{'' \<notin> set lit \<and> plainName key \<and>
              pairsMap (split CHR '';'' args) key = Some v \<longrightarrow>
              rendered (jobTemplate (nunjucks_renderString expr)
                          (lit @ ''{{'' @ key @ ''}}'' @ rest) (Some args)) =
                (case rendered (jobTemplate (nunjucks_renderString expr) rest (Some args)) of
                   Inl e \<Rightarrow> Inl e
                 | Inr r \<Rightarrow> Inr (lit @ escape v @ r)))"
proof -
  have "accepted (split CHR '';'' args) = split CHR '';'' args"
    using assms by (simp add: accepted_def splitsInTwo_eq filter_id_conv)
  then have "stored (split CHR '';'' args) = split CHR '';'' args"
    using assms by (simp add: stored_def filter_id_conv)
  moreover have "malformed (split CHR '';'' args) = []"
    using assms by (simp add: malformed_def splitsInTwo_eq filter_empty_conv)
  ultimately have run: "jobTemplate engine t (Some args) =
           \<lparr>rendered = engine True t (pairsMap (split CHR '';'' args)),
            console = [], engineCalls = 2\<rparr>" for engine t
    by (simp add: jobTemplate_def parseArgs_eq)
  have plain: "rendered (jobTemplate (nunjucks_renderString expr) lit (Some args)) = Inr lit"
    if "CHR ''{'' \<notin> set lit"
    using that by (simp add: run nunjucks_renderString_plain)
  have placeholder:
    "rendered (jobTemplate (nunjucks_renderString expr)
                 (lit @ ''{{'' @ key @ ''}}'' @ rest) (Some args)) =
       (case rendered (jobTemplate (nunjucks_renderString expr) rest (Some args)) of
          Inl e \<Rightarrow> Inl e
        | Inr r \<Rightarrow> Inr (lit @ escape v @ r))"
    if "CHR ''{'' \<notin> set lit" and "plainName key"
      and "pairsMap (split CHR '';'' args) key = Some v"
    using nunjucks_renderString_placeholder [OF that(1) that(2), of expr True rest
        "pairsMap (split CHR '';'' args)"] that(3)
    by (simp add: run split: sum.splits)
  show ?thesis
    using run [of renderString "text"] plain placeholder by blast
qed

text \<open>The example of the specification, through the renderer written from it.\<close>

theorem jobTemplate_substitutes_witness:
  "list_all (\<lambda>entry. wellFormed entry \<and> keyOf entry \<noteq> ''__proto__'')
     (split CHR '';'' ''a:1;b:2'')
   \<and> plainName ''a'' \<and> plainName ''b''
   \<and> pairsMap (split CHR '';'' ''a:1;b:2'') ''a'' = Some ''1''
   \<and> rendered (jobTemplate (nunjucks_renderString noExpressions) ''{{a}}-{{b}}''
        (Some ''a:1;b:2'')) = Inr ''1-2''"
proof -
  have wf: "\<forall>entry \<in> set (split CHR '';'' ''a:1;b:2'').
              wellFormed entry \<and> keyOf entry \<noteq> ''__proto__''"
    by (simp add: wellFormed_def keyOf_def)
  have a: "plainName ''a''" and b: "plainName ''b''"
    by (simp_all add: plainName_def nameStart_def nameChar_def reservedWords_def)
  have va: "pairsMap (split CHR '';'' ''a:1;b:2'') ''a'' = Some ''1''"
    and vb: "pairsMap (split CHR '';'' ''a:1;b:2'') ''b'' = Some ''2''"
    by (simp_all add: pairsMap_def keyOf_def valueOf_def)
  note laws = jobTemplate_substitutes [OF wf]
  have no_brace: "CHR ''{'' \<notin> set []" "CHR ''{'' \<notin> set ''-''"
    by simp_all
  have "rendered (jobTemplate (nunjucks_renderString noExpressions) [] (Some ''a:1;b:2'')) =
          Inr []"
    using laws [of _ _ "[]" noExpressions] no_brace(1) by blast
  moreover have "rendered (jobTemplate (nunjucks_renderString noExpressions)
          (''-'' @ ''{{'' @ ''b'' @ ''}}'' @ []) (Some ''a:1;b:2'')) =
       (case rendered (jobTemplate (nunjucks_renderString noExpressions) []
                         (Some ''a:1;b:2'')) of
          Inl e \<Rightarrow> Inl e
        | Inr r \<Rightarrow> Inr (''-'' @ escape ''2'' @ r))"
    using laws [of _ _ "''-''" noExpressions "''b''" "''2''" "[]"] no_brace(2) b vb by blast
  ultimately have tail:
    "rendered (jobTemplate (nunjucks_renderString noExpressions) ''-{{b}}''
       (Some ''a:1;b:2'')) = Inr ''-2''"
    by (simp add: escape_def)
  have "rendered (jobTemplate (nunjucks_renderString noExpressions)
          ([] @ ''{{'' @ ''a'' @ ''}}'' @ ''-{{b}}'') (Some ''a:1;b:2'')) =
       (case rendered (jobTemplate (nunjucks_renderString noExpressions) ''-{{b}}''
                         (Some ''a:1;b:2'')) of
          Inl e \<Rightarrow> Inl e
        | Inr r \<Rightarrow> Inr ([] @ escape ''1'' @ r))"
    using laws [of _ _ "[]" noExpressions "''a''" "''1''" "''-{{b}}''"] no_brace(1) a va
    by blast
  then have "rendered (jobTemplate (nunjucks_renderString noExpressions) ''{{a}}-{{b}}''
       (Some ''a:1;b:2'')) = Inr ''1-2''"
    using tail by (simp add: escape_def)
  then show ?thesis
    using wf a b va by (simp add: list_all_iff)
qed

text \<open>
  Claim C1 as stated fails in three ways. An entry with the key \<^verbatim>\<open>__proto__\<close> contains
  exactly one colon, and the loop stores nothing for it. A text with a placeholder that
  is not closed makes the engine throw, and \<^verbatim>\<open>jobTemplate\<close> with it. And a placeholder
  \<open>{{ a}}\<close> names the variable \<open>a\<close>, not the key that begins with a blank.
\<close>

theorem jobTemplate_substitutes_counterexample:
  "list_all wellFormed (split CHR '';'' ''__proto__:1'')
   \<and> fst (parseArgs (split CHR '';'' ''__proto__:1'') (Map.empty, [])) ''__proto__'' = None
   \<and> list_all wellFormed (split CHR '';'' ''a:1'')
   \<and> rendered (jobTemplate (nunjucks_renderString noExpressions) ''{{a'' (Some ''a:1'')) =
       Inl (Exn ''Template render error'' ''expected variable end'')
   \<and> list_all wellFormed (split CHR '';'' '' a:1'')
   \<and> rendered (jobTemplate (nunjucks_renderString noExpressions) ''[{{ a}}]'' (Some '' a:1'')) =
       Inr ''[]''"
  by (simp add: wellFormed_def assign_def jobTemplate_def nunjucks_renderString_def
      substitute_def trim_def plainName_def nameStart_def nameChar_def reservedWords_def
      prepend_def)

text \<open>
  Claim C2. With no argument string, \<^verbatim>\<open>jobTemplate\<close> returns the text as it is, prints
  nothing and makes no call into the template engine.
\<close>

theorem jobTemplate_absent:
  "jobTemplate renderString text None =
     \<lparr>rendered = Inr text, console = [], engineCalls = 0\<rparr>"
  by (simp add: jobTemplate_def)



subsection \<open>readJson and writeJson\<close>

text \<open>
  Claim C4. When the read fails, \<^verbatim>\<open>readJson\<close> warns with the message of the failure and
  returns the fallback if one was given; with no fallback it throws a new error that
  wraps the failure. When the read succeeds, \<^verbatim>\<open>readJson\<close> returns the parsed value and
  prints nothing, whatever the fallback. The read fails when there is no file at the
  path or when its content does not parse, and succeeds on a file of valid JSON.
\<close>

theorem readJson_fallback:
  "(fs_readJson parse fs pth = Inl e \<longrightarrow>
      readJson parse fs pth (Some fallback) = (Inr fallback, [message e]) \<and>
      readJson parse fs pth None = (Inl (newError e), [message e]))
   \<and> (fs_readJson parse fs pth = Inr v \<longrightarrow> readJson parse fs pth val = (Inr v, []))
   \<and> (readFails parse fs pth \<longrightarrow> isl (fs_readJson parse fs pth))
   \<and> (files fs pth = None \<longrightarrow> readFails parse fs pth)
   \<and> (files fs pth = Some text \<and> parse text = Some v \<longrightarrow> fs_readJson parse fs pth = Inr v)"
  by (auto simp: readJson_def readFails_def fs_readJson_def split: option.splits)

text \<open>
  A missing file, a file that is not JSON, and a valid file, in the example file system.
\<close>

lemma parse_clusters:
  "parseJson exampleClustersText = Some (JArr [JObj [(''username'', JStr ''admin'')]])"
  by (simp add: exampleClustersText_def parseJson_def quote_def)

lemma parse_broken: "parseJson ''{not json'' = None"
  by (simp add: parseJson_def)

theorem readJson_fallback_witness:
  "readJson parseJson exampleFs ''/etc/missing.json'' (Some exampleValue) =
     (Inr exampleValue, [''ENOENT: no such file or directory, open /etc/missing.json''])
   \<and> readJson parseJson exampleFs ''/etc/missing.json'' None =
     (Inl (Exn ''Error'' ''Error: ENOENT: no such file or directory, open /etc/missing.json''),
      [''ENOENT: no such file or directory, open /etc/missing.json''])
   \<and> fst (readJson parseJson exampleFs ''/etc/broken.json'' (Some exampleValue)) =
       Inr exampleValue
   \<and> readJson parseJson exampleFs ''/etc/clusters.json'' (Some exampleValue) =
       (Inr (JArr [JObj [(''username'', JStr ''admin'')]]), [])"
proof -
  let ?enoent = "Exn ''Error'' ''ENOENT: no such file or directory, open /etc/missing.json''"
  let ?invalid = "Exn ''SyntaxError'' ''/etc/broken.json: not valid JSON''"
  let ?clusters = "JArr [JObj [(''username'', JStr ''admin'')]]"
  have missing: "fs_readJson parseJson exampleFs ''/etc/missing.json'' = Inl ?enoent"
    by (simp add: fs_readJson_def exampleFs_def)
  have broken: "fs_readJson parseJson exampleFs ''/etc/broken.json'' = Inl ?invalid"
    by (simp add: fs_readJson_def exampleFs_def parse_broken)
  have valid: "fs_readJson parseJson exampleFs ''/etc/clusters.json'' = Inr ?clusters"
    by (simp add: fs_readJson_def exampleFs_def parse_clusters)
  show ?thesis
    using missing broken valid
      readJson_fallback [of parseJson exampleFs "''/etc/missing.json''" ?enoent exampleValue]
      readJson_fallback [of parseJson exampleFs "''/etc/broken.json''" ?invalid exampleValue]
      readJson_fallback [of parseJson exampleFs "''/etc/clusters.json''" _ _ ?clusters
        "Some exampleValue"]
    by (simp add: newError_def exn_toString_def)
qed

lemma dirChain_self: "d \<in> set (dirChain d)"
  by (simp add: dirChain_def)

text \<open>Without its parent directory, the write itself fails.\<close>

lemma fs_writeJSON_needs_parent:
  "dirname pth \<notin> dirs fs \<Longrightarrow> isl (fs_writeJSON stringify fs pth v)"
  by (simp add: fs_writeJSON_def)

text \<open>
  Claim C5. For every file system, every path and every value that the parser reads
  back from its serialised text, \<^verbatim>\<open>writeJson\<close> succeeds: the parent directory of the
  path and the directories on the way to it exist afterwards, the file holds the
  serialised value, whatever it held before, and \<^verbatim>\<open>readJson\<close> on the new file system
  returns the value, with or without a fallback.
\<close>

theorem writeJson_readJson:
  assumes "parse (stringify v) = Some v"
  shows "\<exists>fs'. writeJson stringify fs pth v = Inr fs'
           \<and> dirs fs' = dirs fs \<union> set (dirChain (dirname pth))
           \<and> dirname pth \<in> dirs fs'
           \<and> files fs' = (files fs)(pth \<mapsto> stringify v)
           \<and> readJson parse fs' pth val = (Inr v, [])"
  using assms
  by (simp add: writeJson_def fs_writeJSON_def fs_ensureDir_def dirChain_self
      readJson_def fs_readJson_def)

text \<open>
  A new file under directories that do not exist yet, and a file that is overwritten.
\<close>

lemma roundtrip_example: "parseJson (stringifyJson exampleValue) = Some exampleValue"
  by (simp add: exampleValue_def parseJson_def quote_def showInt_def isDigit_def
      digitsVal_def parseNumber_def)

lemma dirname_example: "dirname ''/home/sdk/.openpai/clusters.json'' = ''/home/sdk/.openpai''"
  by (simp add: dirname_def)

theorem writeJson_readJson_witness:
  "parseJson (stringifyJson exampleValue) = Some exampleValue
   \<and> (case writeJson stringifyJson exampleFs ''/home/sdk/.openpai/clusters.json'' exampleValue of
        Inl e \<Rightarrow> False
      | Inr fs' \<Rightarrow>
          ''/home/sdk/.openpai'' \<in> dirs fs' \<and> ''/home/sdk'' \<in> dirs fs' \<and>
          readJson parseJson fs' ''/home/sdk/.openpai/clusters.json'' None =
            (Inr exampleValue, []))
   \<and> (case writeJson stringifyJson exampleFs ''/etc/broken.json'' exampleValue of
        Inl e \<Rightarrow> False
      | Inr fs' \<Rightarrow>
          readJson parseJson fs' ''/etc/broken.json'' None = (Inr exampleValue, []))"
proof -
  obtain fs1 where fs1:
    "writeJson stringifyJson exampleFs ''/home/sdk/.openpai/clusters.json'' exampleValue = Inr fs1"
    "dirs fs1 = dirs exampleFs \<union> set (dirChain (dirname ''/home/sdk/.openpai/clusters.json''))"
    "readJson parseJson fs1 ''/home/sdk/.openpai/clusters.json'' None = (Inr exampleValue, [])"
    using writeJson_readJson [of parseJson stringifyJson exampleValue exampleFs
        "''/home/sdk/.openpai/clusters.json''" None, OF roundtrip_example]
    by blast
  obtain fs2 where fs2:
    "writeJson stringifyJson exampleFs ''/etc/broken.json'' exampleValue = Inr fs2"
    "readJson parseJson fs2 ''/etc/broken.json'' None = (Inr exampleValue, [])"
    using writeJson_readJson [of parseJson stringifyJson exampleValue exampleFs
        "''/etc/broken.json''" None, OF roundtrip_example]
    by blast
  have "''/home/sdk/.openpai'' \<in> dirs fs1" "''/home/sdk'' \<in> dirs fs1"
    by (simp_all add: fs1(2) dirname_example dirChain_def upt_rec)
  then show ?thesis
    using fs1 fs2 roundtrip_example by simp
qed


end
